theory Spec2Isabelle
  imports Main "HOL-Library.Word"
begin

unbundle bit_operations_syntax

section \<open>Flag words of nb\_class.h\<close>

text \<open>
  \<^verbatim>\<open>enum class type_flags : uint32_t\<close> and \<^verbatim>\<open>enum class type_init_flags : uint32_t\<close>:
  every enumerator is a 32-bit constant, written as the shift the source writes.
\<close>

type_synonym u32 = "32 word"

definition is_destructible :: u32 where "is_destructible = push_bit 0 1"
definition is_copy_constructible :: u32 where "is_copy_constructible = push_bit 1 1"
definition is_move_constructible :: u32 where "is_move_constructible = push_bit 2 1"
definition has_destruct :: u32 where "has_destruct = push_bit 4 1"
definition has_copy :: u32 where "has_copy = push_bit 5 1"
definition has_move :: u32 where "has_move = push_bit 6 1"
definition has_implicit_conversions :: u32 where "has_implicit_conversions = push_bit 7 1"
definition is_python_type :: u32 where "is_python_type = push_bit 8 1"
definition is_final :: u32 where "is_final = push_bit 9 1"
definition has_dynamic_attr :: u32 where "has_dynamic_attr = push_bit 10 1"
definition intrusive_ptr :: u32 where "intrusive_ptr = push_bit 11 1"
definition has_shared_from_this :: u32 where "has_shared_from_this = push_bit 12 1"
definition weak_py :: u32 where "weak_py = push_bit 13 1"

definition has_supplement :: u32 where "has_supplement = push_bit 19 1"
definition has_doc :: u32 where "has_doc = push_bit 20 1"
definition has_base :: u32 where "has_base = push_bit 21 1"
definition has_base_py :: u32 where "has_base_py = push_bit 22 1"
definition has_type_slots :: u32 where "has_type_slots = push_bit 23 1"
definition all_init_flags :: u32 where "all_init_flags = push_bit 19 0x1f"

text \<open>
  \<^verbatim>\<open>uint32_t flags : 24\<close> is a 24-bit bit-field. \<^verbatim>\<open>t.flags |= c\<close> reads the field,
  widens it to 32 bits, ORs the constant and stores the low 24 bits back;
  \<^verbatim>\<open>(t.flags & c) == 0\<close> tests on the widened value.
\<close>

definition flags_or :: "24 word \<Rightarrow> u32 \<Rightarrow> 24 word" where
  "flags_or f c = ucast ((ucast f :: u32) OR c)"

definition flags_and :: "24 word \<Rightarrow> u32 \<Rightarrow> u32" where
  "flags_and f c = (ucast f :: u32) AND c"

definition has_flag :: "24 word \<Rightarrow> u32 \<Rightarrow> bool" where
  "has_flag f c = (flags_and f c \<noteq> 0)"

section \<open>Descriptors\<close>

text \<open>
  A native type is known by its \<^verbatim>\<open>std::type_info\<close> identity, a host object by its address.
  A C pointer is \<open>None\<close> when it is \<^verbatim>\<open>nullptr\<close>. The builders declare their descriptor
  as a local without an initialiser (\<^verbatim>\<open>detail::type_init_data d;\<close>), so a member that
  no statement assigns holds an indeterminate value: \<open>Indeterminate\<close>.
\<close>

type_synonym type_info = string
type_synonym pyobj = nat
type_synonym 'a ptr = "'a option"

datatype 'a cell = Indeterminate | Init 'a

text \<open>The functions whose addresses the builders store, and externally supplied ones.\<close>


datatype fun_ref =
    Wrap_copy type_info
  | Wrap_move type_info
  | Wrap_destruct type_info
  | Keep_shared_from_this_alive_lambda type_info
  | Delete_shared_ptr_lambda type_info
  | Nb_enum_prepare
  | Extern_fn nat

text \<open>
  \<^verbatim>\<open>struct type_data\<close> and its extensions. The members \<^verbatim>\<open>size\<close> and \<^verbatim>\<open>type\<close> are the
  fields \<open>size_of\<close> and \<open>type_id\<close>; \<^verbatim>\<open>dictoffset\<close> exists under \<^verbatim>\<open>Py_LIMITED_API\<close> only
  and nothing in this header writes it. \<^verbatim>\<open>struct type_init_data : type_data\<close> and
  \<^verbatim>\<open>struct enum_init_data : type_init_data\<close> are record extensions, so a function on
  any \<open>type_init_data\<close> scheme also takes an \<open>enum_init_data\<close>, as a \<^verbatim>\<open>type_init_data &\<close>
  parameter binds to an \<^verbatim>\<open>enum_init_data\<close> lvalue. The default member initialisers of
  \<^verbatim>\<open>enum_init_data\<close> (\<^verbatim>\<open>is_signed = false\<close>, \<^verbatim>\<open>is_arithmetic = false\<close>) are written where
  the enum builder creates its descriptor.
\<close>

record type_data =
  size_of :: u32
  align :: "8 word"
  flags :: "24 word"
  name :: string
  type_id :: type_info
  alias_chain :: "nat ptr cell"
  type_py :: "pyobj ptr cell"
  destruct :: "fun_ref ptr cell"
  copy :: "fun_ref ptr cell"
  move :: "fun_ref ptr cell"
  implicit :: "nat ptr cell"
  implicit_py :: "nat ptr cell"
  set_self_py :: "fun_ref ptr cell"
  keep_shared_from_this_alive :: "fun_ref ptr cell"
  set_weak_py :: "fun_ref ptr cell"

record type_init_data = type_data +
  scope :: "pyobj ptr"
  base :: "type_info ptr cell"
  base_py :: "pyobj ptr cell"
  doc :: "string ptr cell"
  type_slots :: "nat ptr cell"
  type_slots_callback :: "fun_ref ptr cell"
  supplement :: "nat cell"

record enum_supplement =
  supp_is_signed :: bool
  supp_entries :: "pyobj ptr"
  supp_scope :: "pyobj ptr"

record enum_init_data = type_init_data +
  is_signed :: bool
  is_arithmetic :: bool

section \<open>Compile-time facts\<close>

text \<open>
  What the templates ask the compiler about the types they are instantiated with. The
  traits are declared outside this header, so they are the fields of an environment:
  \<open>is_base_of_v env B D\<close> is \<^verbatim>\<open>std::is_base_of_v<B, D>\<close>, \<open>is_base_caster_v env D\<close> is
  \<^verbatim>\<open>detail::is_base_caster_v<detail::make_caster<D>>\<close>, and so on. Two fields are not
  named traits: \<open>braced_init_ok env T Args\<close> says that the expression
  \<^verbatim>\<open>new (p) T{ (detail::forward_t<Args>) args... }\<close> is well-formed (list-initialisation,
  which \<^verbatim>\<open>std::is_constructible_v\<close>, a question about \<^verbatim>\<open>T(args...)\<close>, does not decide);
  \<open>is_pod_v env T\<close> says that \<open>T\<close> is a POD type, trivial and standard-layout, the
  notion the message of the supplement assertion names.
\<close>

record cxx_env =
  sizeof :: "type_info \<Rightarrow> nat"
  alignof :: "type_info \<Rightarrow> nat"
  alignof_void_ptr :: nat
  sizeof_enum_supplement :: nat
  is_base_of_v :: "type_info \<Rightarrow> type_info \<Rightarrow> bool"
  is_enum_v :: "type_info \<Rightarrow> bool"
  underlying_is_signed_v :: "type_info \<Rightarrow> bool"
  is_constructible_v :: "type_info \<Rightarrow> type_info list \<Rightarrow> bool"
  braced_init_ok :: "type_info \<Rightarrow> type_info list \<Rightarrow> bool"
  is_trivially_default_constructible_v :: "type_info \<Rightarrow> bool"
  is_pod_v :: "type_info \<Rightarrow> bool"
  is_trivially_copyable_v :: "type_info \<Rightarrow> bool"
  is_copy_constructible_v :: "type_info \<Rightarrow> bool"
  is_trivially_copy_constructible_v :: "type_info \<Rightarrow> bool"
  is_move_constructible_v :: "type_info \<Rightarrow> bool"
  is_trivially_move_constructible_v :: "type_info \<Rightarrow> bool"
  is_destructible_v :: "type_info \<Rightarrow> bool"
  is_trivially_destructible_v :: "type_info \<Rightarrow> bool"
  has_shared_from_this_v :: "type_info \<Rightarrow> bool"
  is_base_caster_v :: "type_info \<Rightarrow> bool"
  is_class_caster_v :: "type_info \<Rightarrow> bool"

text \<open>A build that does not compile: a failed \<^verbatim>\<open>static_assert\<close>, a call that resolves
  to a deleted overload, a call no overload accepts, or an initialisation of a type
  from arguments it has no constructor for.\<close>

datatype build_error =
    Static_assert string
  | Deleted_function
  | No_matching_function
  | No_matching_constructor type_info "type_info list"

section \<open>The capability-extension protocol: \<^verbatim>\<open>type_extra_apply\<close>\<close>

text \<open>One constructor for each type an overload of \<^verbatim>\<open>type_extra_apply\<close> takes.\<close>

datatype extra =
    Handle "pyobj ptr"
  | Doc "string ptr"
  | Type_slots "nat ptr"
  | Type_slots_callback "fun_ref ptr"
  | Intrusive_ptr "fun_ref ptr"
  | Weak_py "fun_ref ptr"
  | Is_final
  | Dynamic_attr
  | Supplement type_info
  | Is_arithmetic

definition type_extra_apply_handle ::
  "'a type_init_data_scheme \<Rightarrow> pyobj ptr \<Rightarrow> 'a type_init_data_scheme" where
  "type_extra_apply_handle t h =
     t\<lparr>flags := flags_or (flags t) has_base_py, base_py := Init h\<rparr>"

definition type_extra_apply_doc ::
  "'a type_init_data_scheme \<Rightarrow> string ptr \<Rightarrow> 'a type_init_data_scheme" where
  "type_extra_apply_doc t d =
     t\<lparr>flags := flags_or (flags t) has_doc, doc := Init d\<rparr>"

definition type_extra_apply_type_slots ::
  "'a type_init_data_scheme \<Rightarrow> nat ptr \<Rightarrow> 'a type_init_data_scheme" where
  "type_extra_apply_type_slots t c =
     (let t1 = (if flags_and (flags t) has_type_slots = 0
                then t\<lparr>flags := flags_or (flags t) has_type_slots,
                       type_slots_callback := Init None\<rparr>
                else t)
      in t1\<lparr>type_slots := Init c\<rparr>)"

definition type_extra_apply_type_slots_callback ::
  "'a type_init_data_scheme \<Rightarrow> fun_ref ptr \<Rightarrow> 'a type_init_data_scheme" where
  "type_extra_apply_type_slots_callback t c =
     (let t1 = (if flags_and (flags t) has_type_slots = 0
                then t\<lparr>flags := flags_or (flags t) has_type_slots,
                       type_slots := Init None\<rparr>
                else t)
      in t1\<lparr>type_slots_callback := Init c\<rparr>)"

definition type_extra_apply_intrusive_ptr ::
  "'a type_init_data_scheme \<Rightarrow> fun_ref ptr \<Rightarrow> 'a type_init_data_scheme" where
  "type_extra_apply_intrusive_ptr t ip =
     t\<lparr>flags := flags_or (flags t) intrusive_ptr, set_self_py := Init ip\<rparr>"

definition type_extra_apply_weak_py ::
  "'a type_init_data_scheme \<Rightarrow> fun_ref ptr \<Rightarrow> 'a type_init_data_scheme" where
  "type_extra_apply_weak_py t wp =
     t\<lparr>flags := flags_or (flags t) weak_py, set_weak_py := Init wp\<rparr>"

definition type_extra_apply_is_final ::
  "'a type_init_data_scheme \<Rightarrow> 'a type_init_data_scheme" where
  "type_extra_apply_is_final t = t\<lparr>flags := flags_or (flags t) is_final\<rparr>"

definition type_extra_apply_dynamic_attr ::
  "'a type_init_data_scheme \<Rightarrow> 'a type_init_data_scheme" where
  "type_extra_apply_dynamic_attr t = t\<lparr>flags := flags_or (flags t) has_dynamic_attr\<rparr>"

definition type_extra_apply_supplement ::
  "cxx_env \<Rightarrow> 'a type_init_data_scheme \<Rightarrow> type_info
     \<Rightarrow> build_error + 'a type_init_data_scheme" where
  "type_extra_apply_supplement env t S =
     (if \<not> is_trivially_default_constructible_v env S
      then Inl (Static_assert ''The supplement must be a POD (plain old data) type'')
      else if \<not> alignof env S \<le> alignof_void_ptr env
      then Inl (Static_assert ''The alignment requirement of the supplement is too high.'')
      else Inr (t\<lparr>flags := flags_or (flags t) (has_supplement OR is_final),
                  supplement := Init (sizeof env S)\<rparr>))"

definition type_extra_apply_is_arithmetic :: "enum_init_data \<Rightarrow> enum_init_data" where
  "type_extra_apply_is_arithmetic ed = ed\<lparr>is_arithmetic := True\<rparr>"

text \<open>
  Overload resolution on a \<^verbatim>\<open>type_init_data\<close> lvalue (the class builder's descriptor).
  No overload takes \<^verbatim>\<open>is_arithmetic\<close> with a plain \<^verbatim>\<open>type_init_data &\<close>.
\<close>

fun type_extra_apply :: "cxx_env \<Rightarrow> type_init_data \<Rightarrow> extra \<Rightarrow> build_error + type_init_data" where
  "type_extra_apply env t (Handle h) = Inr (type_extra_apply_handle t h)"
| "type_extra_apply env t (Doc d) = Inr (type_extra_apply_doc t d)"
| "type_extra_apply env t (Type_slots c) = Inr (type_extra_apply_type_slots t c)"
| "type_extra_apply env t (Type_slots_callback c) = Inr (type_extra_apply_type_slots_callback t c)"
| "type_extra_apply env t (Intrusive_ptr ip) = Inr (type_extra_apply_intrusive_ptr t ip)"
| "type_extra_apply env t (Weak_py wp) = Inr (type_extra_apply_weak_py t wp)"
| "type_extra_apply env t Is_final = Inr (type_extra_apply_is_final t)"
| "type_extra_apply env t Dynamic_attr = Inr (type_extra_apply_dynamic_attr t)"
| "type_extra_apply env t (Supplement S) = type_extra_apply_supplement env t S"
| "type_extra_apply env t Is_arithmetic = Inl No_matching_function"

text \<open>
  Overload resolution on an \<^verbatim>\<open>enum_init_data\<close> lvalue: the overloads declared
  \<^verbatim>\<open>= delete\<close> for \<^verbatim>\<open>enum_init_data &\<close> match exactly and win over the base-class ones;
  the remaining traits reach the \<^verbatim>\<open>type_init_data &\<close> overloads through the
  derived-to-base conversion.
\<close>

fun type_extra_apply_enum :: "cxx_env \<Rightarrow> enum_init_data \<Rightarrow> extra \<Rightarrow> build_error + enum_init_data" where
  "type_extra_apply_enum env ed Is_arithmetic = Inr (type_extra_apply_is_arithmetic ed)"
| "type_extra_apply_enum env ed (Handle h) = Inl Deleted_function"
| "type_extra_apply_enum env ed (Intrusive_ptr ip) = Inl Deleted_function"
| "type_extra_apply_enum env ed (Weak_py wp) = Inl Deleted_function"
| "type_extra_apply_enum env ed (Supplement S) = Inl Deleted_function"
| "type_extra_apply_enum env ed Is_final = Inl Deleted_function"
| "type_extra_apply_enum env ed (Type_slots_callback c) = Inl Deleted_function"
| "type_extra_apply_enum env ed (Doc d) = Inr (type_extra_apply_doc ed d)"
| "type_extra_apply_enum env ed (Type_slots c) = Inr (type_extra_apply_type_slots ed c)"
| "type_extra_apply_enum env ed Dynamic_attr = Inr (type_extra_apply_dynamic_attr ed)"

text \<open>The fold \<^verbatim>\<open>(detail::type_extra_apply(d, extra), ...)\<close>: left to right; one call that
  does not compile fails the build.\<close>

fun apply_extras :: "cxx_env \<Rightarrow> type_init_data \<Rightarrow> extra list \<Rightarrow> build_error + type_init_data" where
  "apply_extras env d [] = Inr d"
| "apply_extras env d (e # es) =
     (case type_extra_apply env d e of
        Inl err \<Rightarrow> Inl err
      | Inr d' \<Rightarrow> apply_extras env d' es)"

fun apply_extras_enum :: "cxx_env \<Rightarrow> enum_init_data \<Rightarrow> extra list \<Rightarrow> build_error + enum_init_data" where
  "apply_extras_enum env d [] = Inr d"
| "apply_extras_enum env d (e # es) =
     (case type_extra_apply_enum env d e of
        Inl err \<Rightarrow> Inl err
      | Inr d' \<Rightarrow> apply_extras_enum env d' es)"

section \<open>The class builder: \<^verbatim>\<open>class_<T, Ts...>\<close>\<close>

text \<open>\<^verbatim>\<open>extract<T, Pred, Ts...>::type\<close>: the first of \<open>Ts\<close> that satisfies \<open>Pred\<close>, else \<open>T\<close>.\<close>

fun extract_t :: "type_info \<Rightarrow> (type_info \<Rightarrow> type_info \<Rightarrow> bool) \<Rightarrow> type_info list \<Rightarrow> type_info" where
  "extract_t T Pred [] = T"
| "extract_t T Pred (Tv # Ts) = (if Pred T Tv then Tv else extract_t T Pred Ts)"

definition is_alias :: "cxx_env \<Rightarrow> type_info \<Rightarrow> type_info \<Rightarrow> bool" where
  "is_alias env T Arg = is_base_of_v env T Arg"

definition is_base :: "cxx_env \<Rightarrow> type_info \<Rightarrow> type_info \<Rightarrow> bool" where
  "is_base env T Arg = is_base_of_v env Arg T"

definition Base :: "cxx_env \<Rightarrow> type_info \<Rightarrow> type_info list \<Rightarrow> type_info" where
  "Base env T Ts = extract_t T (is_base env) Ts"

definition Alias :: "cxx_env \<Rightarrow> type_info \<Rightarrow> type_info list \<Rightarrow> type_info" where
  "Alias env T Ts = extract_t T (is_alias env) Ts"

text \<open>The four \<^verbatim>\<open>static_assert\<close>s at class scope; \<open>None\<close> when all of them hold.\<close>

definition class_static_asserts :: "cxx_env \<Rightarrow> type_info \<Rightarrow> type_info list \<Rightarrow> build_error option" where
  "class_static_asserts env T Ts =
     (if \<not> sizeof env (Alias env T Ts) < 2 ^ 24
      then Some (Static_assert ''Instance size is too big!'')
      else if \<not> alignof env (Alias env T Ts) < 2 ^ 8
      then Some (Static_assert ''Instance alignment is too big!'')
      else if length Ts \<noteq> (if Base env T Ts \<noteq> T then 1 else 0) + (if Alias env T Ts \<noteq> T then 1 else 0)
      then Some (Static_assert
        ''nanobind::class_<> was invoked with extra arguments that could not be handled'')
      else if \<not> is_base_caster_v env T
      then Some (Static_assert
        (''You attempted to bind a type that is already intercepted by a type '' @
         ''caster. Having both at the same time is not allowed. Are you perhaps '' @
         ''binding an STL type, while at the same time including a matching '' @
         ''type caster from <nanobind/stl/*>? Or did you perhaps forget to '' @
         ''declare NB_MAKE_OPAQUE(..) to specifically disable the type caster '' @
         ''catch-all for a specific type? Please review the documentation '' @
         ''to learn about the difference between bindings and type casters.''))
      else None)"

text \<open>The constructor body up to the trait fold, one definition for each block of the source.\<close>

definition class_fresh :: "cxx_env \<Rightarrow> type_info \<Rightarrow> type_info list \<Rightarrow> pyobj ptr \<Rightarrow> string \<Rightarrow> type_init_data" where
  "class_fresh env T Ts scope_h name_s =
     \<lparr> size_of = of_nat (sizeof env (Alias env T Ts)),
       align = of_nat (alignof env (Alias env T Ts)),
       flags = 0,
       name = name_s,
       type_id = T,
       alias_chain = Indeterminate,
       type_py = Indeterminate,
       destruct = Indeterminate,
       copy = Indeterminate,
       move = Indeterminate,
       implicit = Indeterminate,
       implicit_py = Indeterminate,
       set_self_py = Indeterminate,
       keep_shared_from_this_alive = Indeterminate,
       set_weak_py = Indeterminate,
       scope = scope_h,
       base = Indeterminate,
       base_py = Indeterminate,
       doc = Indeterminate,
       type_slots = Indeterminate,
       type_slots_callback = Indeterminate,
       supplement = Indeterminate \<rparr>"

definition class_probe_base :: "cxx_env \<Rightarrow> type_info \<Rightarrow> type_info list \<Rightarrow> type_init_data \<Rightarrow> type_init_data" where
  "class_probe_base env T Ts d =
     (if Base env T Ts \<noteq> T
      then d\<lparr>base := Init (Some (Base env T Ts)), flags := flags_or (flags d) has_base\<rparr>
      else d)"

definition class_probe_copy :: "cxx_env \<Rightarrow> type_info \<Rightarrow> type_init_data \<Rightarrow> type_init_data" where
  "class_probe_copy env T d =
     (if is_copy_constructible_v env T
      then (let d1 = d\<lparr>flags := flags_or (flags d) is_copy_constructible\<rparr>
            in if \<not> is_trivially_copy_constructible_v env T
               then d1\<lparr>flags := flags_or (flags d1) has_copy, copy := Init (Some (Wrap_copy T))\<rparr>
               else d1)
      else d)"

definition class_probe_move :: "cxx_env \<Rightarrow> type_info \<Rightarrow> type_init_data \<Rightarrow> type_init_data" where
  "class_probe_move env T d =
     (if is_move_constructible_v env T
      then (let d1 = d\<lparr>flags := flags_or (flags d) is_move_constructible\<rparr>
            in if \<not> is_trivially_move_constructible_v env T
               then d1\<lparr>flags := flags_or (flags d1) has_move, move := Init (Some (Wrap_move T))\<rparr>
               else d1)
      else d)"

definition class_probe_destruct :: "cxx_env \<Rightarrow> type_info \<Rightarrow> type_init_data \<Rightarrow> type_init_data" where
  "class_probe_destruct env T d =
     (if is_destructible_v env T
      then (let d1 = d\<lparr>flags := flags_or (flags d) is_destructible\<rparr>
            in if \<not> is_trivially_destructible_v env T
               then d1\<lparr>flags := flags_or (flags d1) has_destruct,
                       destruct := Init (Some (Wrap_destruct T))\<rparr>
               else d1)
      else d)"

definition class_probe_shared :: "cxx_env \<Rightarrow> type_info \<Rightarrow> type_init_data \<Rightarrow> type_init_data" where
  "class_probe_shared env T d =
     (if has_shared_from_this_v env T
      then d\<lparr>flags := flags_or (flags d) has_shared_from_this,
             keep_shared_from_this_alive := Init (Some (Keep_shared_from_this_alive_lambda T))\<rparr>
      else d)"

definition class_probed :: "cxx_env \<Rightarrow> type_info \<Rightarrow> type_info list \<Rightarrow> pyobj ptr \<Rightarrow> string \<Rightarrow> type_init_data" where
  "class_probed env T Ts scope_h name_s =
     class_probe_shared env T
       (class_probe_destruct env T
         (class_probe_move env T
           (class_probe_copy env T
             (class_probe_base env T Ts
               (class_fresh env T Ts scope_h name_s)))))"

text \<open>
  \<^verbatim>\<open>class_<T, Ts...>::class_(scope, name, extra...)\<close>. The result is the descriptor the
  constructor hands to \<^verbatim>\<open>detail::nb_type_new\<close>, or the reason the call does not build.
\<close>

definition class_ctor ::
  "cxx_env \<Rightarrow> type_info \<Rightarrow> type_info list \<Rightarrow> pyobj ptr \<Rightarrow> string \<Rightarrow> extra list
     \<Rightarrow> build_error + type_init_data" where
  "class_ctor env T Ts scope_h name_s extras =
     (case class_static_asserts env T Ts of
        Some err \<Rightarrow> Inl err
      | None \<Rightarrow> apply_extras env (class_probed env T Ts scope_h name_s) extras)"

section \<open>The enum builder: \<^verbatim>\<open>enum_<T>\<close>\<close>

definition enum_fresh :: "cxx_env \<Rightarrow> type_info \<Rightarrow> pyobj ptr \<Rightarrow> string \<Rightarrow> enum_init_data" where
  "enum_fresh env T scope_h name_s =
     \<lparr> size_of = of_nat (sizeof env T),
       align = of_nat (alignof env T),
       flags = ucast (has_supplement OR has_type_slots OR is_copy_constructible OR
                      is_move_constructible OR is_destructible OR is_final),
       name = name_s,
       type_id = T,
       alias_chain = Indeterminate,
       type_py = Indeterminate,
       destruct = Indeterminate,
       copy = Indeterminate,
       move = Indeterminate,
       implicit = Indeterminate,
       implicit_py = Indeterminate,
       set_self_py = Indeterminate,
       keep_shared_from_this_alive = Indeterminate,
       set_weak_py = Indeterminate,
       scope = scope_h,
       base = Indeterminate,
       base_py = Indeterminate,
       doc = Indeterminate,
       type_slots = Init None,
       type_slots_callback = Init (Some Nb_enum_prepare),
       supplement = Init (sizeof_enum_supplement env),
       is_signed = underlying_is_signed_v env T,
       is_arithmetic = False \<rparr>"

text \<open>
  \<^verbatim>\<open>enum_<T>\<close> derives from \<^verbatim>\<open>class_<T>\<close>, so the class-scope assertions are
  instantiated with an empty \<open>Ts\<close>; its own assertion asks for an enumeration type, and
  its constructor asserts, without a message, that the type is trivially copyable.
\<close>

definition enum_static_asserts :: "cxx_env \<Rightarrow> type_info \<Rightarrow> build_error option" where
  "enum_static_asserts env T =
     (case class_static_asserts env T [] of
        Some err \<Rightarrow> Some err
      | None \<Rightarrow>
          if \<not> is_enum_v env T
          then Some (Static_assert ''nanobind::enum_<> requires an enumeration type!'')
          else if \<not> is_trivially_copyable_v env T
          then Some (Static_assert [])
          else None)"

text \<open>
  \<^verbatim>\<open>enum_<T>::enum_(scope, name, extra...)\<close>. \<open>supp0\<close> is the supplement region of the type
  object \<^verbatim>\<open>detail::nb_type_new\<close> returns, as the constructor finds it; the result is the
  descriptor handed to \<^verbatim>\<open>nb_type_new\<close> and the supplement after the two assignments.
\<close>

definition enum_ctor ::
  "cxx_env \<Rightarrow> type_info \<Rightarrow> pyobj ptr \<Rightarrow> string \<Rightarrow> extra list \<Rightarrow> enum_supplement
     \<Rightarrow> build_error + (enum_init_data \<times> enum_supplement)" where
  "enum_ctor env T scope_h name_s extras supp0 =
     (case enum_static_asserts env T of
        Some err \<Rightarrow> Inl err
      | None \<Rightarrow>
          (case apply_extras_enum env (enum_fresh env T scope_h name_s) extras of
             Inl err \<Rightarrow> Inl err
           | Inr d \<Rightarrow> Inr (d, supp0\<lparr>supp_is_signed := is_signed d, supp_scope := scope d\<rparr>)))"

section \<open>The shared-ownership keep-alive hook\<close>

text \<open>
  The state the hook of \<^verbatim>\<open>class_::class_\<close> works on. \<open>weak_this s self\<close> is the control
  block that \<^verbatim>\<open>inst_ptr<T>(self)->weak_from_this()\<close> refers to (\<open>None\<close> for an empty weak
  pointer), \<open>use_count s cb\<close> the number of strong owners of a control block, and
  \<open>keep_alive_list s o\<close> the auxiliary list of host object \<open>o\<close>.
\<close>

datatype payload = Shared_ptr_box nat

record host_state =
  weak_this :: "pyobj \<Rightarrow> nat option"
  use_count :: "nat \<Rightarrow> nat"
  keep_alive_list :: "pyobj \<Rightarrow> (payload \<times> fun_ref) list"

text \<open>\<^verbatim>\<open>std::weak_ptr::lock\<close> of the standard library: an empty \<^verbatim>\<open>shared_ptr\<close> when the
  weak pointer is empty or expired, else a new strong owner.\<close>

definition weak_lock :: "host_state \<Rightarrow> pyobj \<Rightarrow> nat option \<times> host_state" where
  "weak_lock s self =
     (case weak_this s self of
        None \<Rightarrow> (None, s)
      | Some cb \<Rightarrow>
          if use_count s cb = 0 then (None, s)
          else (Some cb, s\<lparr>use_count := (use_count s)(cb := use_count s cb + 1)\<rparr>))"

text \<open>
  Modelled from the spec: \<^verbatim>\<open>detail::keep_alive(nurse, payload, callback)\<close> is declared
  outside this header. The spec describes the collaborator as
  "append(owned resource, release callback), auto-released at host-object teardown".
\<close>

definition keep_alive :: "host_state \<Rightarrow> pyobj \<Rightarrow> payload \<Rightarrow> fun_ref \<Rightarrow> host_state" where
  "keep_alive s nurse p cb =
     s\<lparr>keep_alive_list := (keep_alive_list s)(nurse := keep_alive_list s nurse @ [(p, cb)])\<rparr>"

text \<open>The lambda stored in \<^verbatim>\<open>d.keep_shared_from_this_alive\<close>.\<close>

definition keep_shared_from_this_alive_lambda ::
  "type_info \<Rightarrow> host_state \<Rightarrow> pyobj \<Rightarrow> bool \<times> host_state" where
  "keep_shared_from_this_alive_lambda T s self =
     (case weak_lock s self of
        (Some sp, s') \<Rightarrow>
          (True, keep_alive s' self (Shared_ptr_box sp) (Delete_shared_ptr_lambda T))
      | (None, s') \<Rightarrow> (False, s'))"

text \<open>Calling through the pointer the descriptor stores.\<close>

fun call_keep_shared_from_this_alive ::
  "fun_ref ptr cell \<Rightarrow> host_state \<Rightarrow> pyobj \<Rightarrow> (bool \<times> host_state) option" where
  "call_keep_shared_from_this_alive (Init (Some (Keep_shared_from_this_alive_lambda T))) s self =
     Some (keep_shared_from_this_alive_lambda T s self)"
| "call_keep_shared_from_this_alive _ s self = None"

section \<open>Member registration\<close>

text \<open>
  The callables the builder synthesises, and the annotations it passes along with them.
  \<^verbatim>\<open>const D &\<close> and \<^verbatim>\<open>D &&\<close> are the two parameter types the setter of \<^verbatim>\<open>def_rw\<close> can have.
\<close>

datatype param_kind = Const_lvalue_ref | Rvalue_ref

datatype callable =
    Init_lambda "type_info list"
  | Init_implicit_lambda type_info
  | Getter_lambda nat
  | Setter_lambda nat param_kind
  | From_python_lambda type_info

datatype func_attr =
    Scope_attr
  | Name_attr string
  | Is_method
  | Is_getter
  | Is_implicit
  | Rv_policy_reference_internal
  | User_attr nat

record property =
  prop_name :: string
  prop_get :: "(callable \<times> func_attr list) option"
  prop_set :: "(callable \<times> func_attr list) option"

text \<open>The implicit conversion registry: for each target type, its entries in
  registration order.\<close>

datatype conv_entry = From_type type_info | From_predicate callable

type_synonym implicit_registry = "type_info \<Rightarrow> conv_entry list"

record class_obj =
  cl_Type :: type_info
  cl_Alias :: type_info
  cl_defs :: "(callable \<times> func_attr list) list"
  cl_props :: "property list"

text \<open>
  Modelled from the spec: \<^verbatim>\<open>cpp_function_def\<close>, \<^verbatim>\<open>cpp_function\<close> and
  \<^verbatim>\<open>detail::property_install\<close> are declared outside this header. The spec says that each
  registration "wraps a callable ... and installs it on the type's scope"; the model
  records the callable with the annotations the source passes, in call order.
\<close>

definition class_def :: "class_obj \<Rightarrow> string \<Rightarrow> callable \<Rightarrow> func_attr list \<Rightarrow> class_obj" where
  "class_def cl name_s f extras =
     cl\<lparr>cl_defs := cl_defs cl @ [(f, [Scope_attr, Name_attr name_s, Is_method] @ extras)]\<rparr>"

definition def_prop_rw ::
  "class_obj \<Rightarrow> string \<Rightarrow> callable option \<Rightarrow> callable option \<Rightarrow> func_attr list \<Rightarrow> class_obj" where
  "def_prop_rw cl name_s getter setter extras =
     (let get_p = (case getter of
                     None \<Rightarrow> None
                   | Some g \<Rightarrow> Some (g, [Scope_attr, Is_method, Is_getter,
                                          Rv_policy_reference_internal] @ extras));
          set_p = (case setter of
                     None \<Rightarrow> None
                   | Some f \<Rightarrow> Some (f, [Scope_attr, Is_method] @ extras))
      in cl\<lparr>cl_props := cl_props cl @
               [\<lparr>prop_name = name_s, prop_get = get_p, prop_set = set_p\<rparr>]\<rparr>)"

text \<open>
  Modelled from the spec: \<^verbatim>\<open>detail::implicitly_convertible\<close> (both overloads) is declared
  outside this header. The spec describes the registry as "per native target-type
  identity, an ordered list of (source-type-identity, predicate) entries, probed in
  registration order".
\<close>

definition implicitly_convertible_type :: "implicit_registry \<Rightarrow> type_info \<Rightarrow> type_info \<Rightarrow> implicit_registry" where
  "implicitly_convertible_type reg src dst = reg(dst := reg dst @ [From_type src])"

definition implicitly_convertible_pred :: "implicit_registry \<Rightarrow> callable \<Rightarrow> type_info \<Rightarrow> implicit_registry" where
  "implicitly_convertible_pred reg pred dst = reg(dst := reg dst @ [From_predicate pred])"

subsection \<open>\<^verbatim>\<open>init<Args...>\<close>\<close>

text \<open>\<^verbatim>\<open>new (p) Ty{args...}\<close>: the type constructed, the address, the arguments.\<close>

datatype 'a placement_new = Placement_new type_info nat "'a list"

text \<open>
  Instantiating the body of the lambda \<^verbatim>\<open>[](pointer_and_handle<Type> v, Args... args)\<close>.
  The statement under \<^verbatim>\<open>if constexpr\<close> is instantiated only when its condition holds;
  the placement new of \<^verbatim>\<open>Alias\<close> stands outside it and is instantiated for every
  \<open>Args\<close>. A placement new that is not well-formed fails the build.
\<close>

definition init_lambda_check ::
  "cxx_env \<Rightarrow> type_info \<Rightarrow> type_info \<Rightarrow> type_info list \<Rightarrow> build_error option" where
  "init_lambda_check env Type Alias_t Args =
     (if Type \<noteq> Alias_t \<and> is_constructible_v env Type Args \<and> \<not> braced_init_ok env Type Args
      then Some (No_matching_constructor Type Args)
      else if \<not> braced_init_ok env Alias_t Args
      then Some (No_matching_constructor Alias_t Args)
      else None)"

text \<open>
  The lambda itself, where it builds: \<open>p\<close> is \<^verbatim>\<open>v.p\<close>, \<open>h\<close> is \<^verbatim>\<open>v.h.ptr()\<close>, and
  \<open>nb_inst_python_derived\<close> the run-time query of the instance.
\<close>

definition init_lambda ::
  "cxx_env \<Rightarrow> type_info \<Rightarrow> type_info \<Rightarrow> type_info list \<Rightarrow> (pyobj \<Rightarrow> bool)
     \<Rightarrow> nat \<Rightarrow> pyobj \<Rightarrow> 'a list \<Rightarrow> build_error + 'a placement_new" where
  "init_lambda env Type Alias_t Args nb_inst_python_derived p h args =
     (case init_lambda_check env Type Alias_t Args of
        Some err \<Rightarrow> Inl err
      | None \<Rightarrow>
          Inr (if Type \<noteq> Alias_t \<and> is_constructible_v env Type Args
               then (if \<not> nb_inst_python_derived h
                     then Placement_new Type p args
                     else Placement_new Alias_t p args)
               else Placement_new Alias_t p args))"

text \<open>\<^verbatim>\<open>init<Args...>::execute\<close>: the registration builds when the lambda does.\<close>

definition init_execute ::
  "cxx_env \<Rightarrow> class_obj \<Rightarrow> type_info list \<Rightarrow> func_attr list \<Rightarrow> build_error + class_obj" where
  "init_execute env cl Args extras =
     (case init_lambda_check env (cl_Type cl) (cl_Alias cl) Args of
        Some err \<Rightarrow> Inl err
      | None \<Rightarrow> Inr (class_def cl ''__init__'' (Init_lambda Args) extras))"

text \<open>Calling an initializer of a class; there is none to call where the lambda does not
  build.\<close>

fun call_init ::
  "cxx_env \<Rightarrow> class_obj \<Rightarrow> callable \<Rightarrow> (pyobj \<Rightarrow> bool) \<Rightarrow> nat \<Rightarrow> pyobj \<Rightarrow> 'a list
     \<Rightarrow> 'a placement_new option" where
  "call_init env cl (Init_lambda Args) derived p h args =
     (case init_lambda env (cl_Type cl) (cl_Alias cl) Args derived p h args of
        Inl err \<Rightarrow> None
      | Inr r \<Rightarrow> Some r)"
| "call_init env cl (Init_implicit_lambda Arg) derived p h args =
     (case init_lambda env (cl_Type cl) (cl_Alias cl) [Arg] derived p h args of
        Inl err \<Rightarrow> None
      | Inr r \<Rightarrow> Some r)"
| "call_init env cl _ derived p h args = None"

subsection \<open>\<^verbatim>\<open>init_implicit<Arg>\<close>\<close>

text \<open>
  Modelled from the spec: the caster of a type (\<^verbatim>\<open>detail::make_caster<Arg>\<close>) and its
  \<^verbatim>\<open>from_python(src, flags, cleanup)\<close> are declared outside this header. The spec
  (section 4.6) describes a conversion attempt as one that "tries to build a temporary
  ... value from the host value; on success may register the temporary against a
  caller-supplied cleanup list for deferred release; on failure performs no mutation".
  A caster is what it accepts and what it registers on success.
\<close>

datatype cast_flags = Convert | Construct

record caster =
  accepts :: "pyobj \<Rightarrow> cast_flags \<Rightarrow> bool"
  registers :: "pyobj \<Rightarrow> pyobj list"






text \<open>The free template \<^verbatim>\<open>implicitly_convertible<Source, Target>()\<close> at the end of the header.\<close>

definition implicitly_convertible :: "cxx_env \<Rightarrow> type_info \<Rightarrow> type_info \<Rightarrow> implicit_registry \<Rightarrow> implicit_registry" where
  "implicitly_convertible env Source Target reg =
     (if is_base_caster_v env Source
      then implicitly_convertible_type reg Source Target
      else implicitly_convertible_pred reg (From_python_lambda Source) Target)"

subsection \<open>\<^verbatim>\<open>def_rw\<close>\<close>

text \<open>
  The assignment operators of the member's type \<open>D\<close>: copy assignment leaves its source
  as it is (it takes \<^verbatim>\<open>const D &\<close>); move assignment may change it.
\<close>

record 'd assign_ops =
  copy_assign :: "'d \<Rightarrow> 'd \<Rightarrow> 'd"
  move_assign :: "'d \<Rightarrow> 'd \<Rightarrow> 'd \<times> 'd"

definition def_rw_Q :: "cxx_env \<Rightarrow> type_info \<Rightarrow> param_kind" where
  "def_rw_Q env D = (if is_base_caster_v env D then Const_lvalue_ref else Rvalue_ref)"

text \<open>An object is its members, addressed by member pointer. The getter
  \<^verbatim>\<open>[p](const T &c) -> const D & { return c.*p; }\<close> yields a reference: its kind, the member it
  refers to, and the value read through it.\<close>

definition getter_lambda :: "nat \<Rightarrow> (nat \<Rightarrow> 'd) \<Rightarrow> param_kind \<times> nat \<times> 'd" where
  "getter_lambda p c = (Const_lvalue_ref, p, c p)"

text \<open>The setter \<^verbatim>\<open>[p](T &c, Q value) { c.*p = (Q) value; }\<close>: the object and the
  argument after the call.\<close>

definition setter_lambda ::
  "'d assign_ops \<Rightarrow> param_kind \<Rightarrow> nat \<Rightarrow> (nat \<Rightarrow> 'd) \<Rightarrow> 'd \<Rightarrow> (nat \<Rightarrow> 'd) \<times> 'd" where
  "setter_lambda ops q p c v =
     (case q of
        Const_lvalue_ref \<Rightarrow> (c(p := copy_assign ops (c p) v), v)
      | Rvalue_ref \<Rightarrow> (case move_assign ops (c p) v of (d', v') \<Rightarrow> (c(p := d'), v')))"

definition def_rw ::
  "cxx_env \<Rightarrow> class_obj \<Rightarrow> string \<Rightarrow> type_info \<Rightarrow> type_info \<Rightarrow> nat \<Rightarrow> func_attr list
     \<Rightarrow> build_error + class_obj" where
  "def_rw env cl name_s C D p extras =
     (if \<not> is_base_of_v env C (cl_Type cl)
      then Inl (Static_assert ''def_rw() requires a (base) class member!'')
      else Inr (def_prop_rw cl name_s
                  (Some (Getter_lambda p))
                  (Some (Setter_lambda p (def_rw_Q env D)))
                  extras))"

text \<open>Calling the accessors a property holds.\<close>

fun call_getter :: "callable \<Rightarrow> (nat \<Rightarrow> 'd) \<Rightarrow> (param_kind \<times> nat \<times> 'd) option" where
  "call_getter (Getter_lambda p) c = Some (getter_lambda p c)"
| "call_getter _ c = None"

fun call_setter :: "'d assign_ops \<Rightarrow> callable \<Rightarrow> (nat \<Rightarrow> 'd) \<Rightarrow> 'd \<Rightarrow> ((nat \<Rightarrow> 'd) \<times> 'd) option" where
  "call_setter ops (Setter_lambda p q) c v = Some (setter_lambda ops q p c v)"
| "call_setter ops _ c v = None"

section \<open>Binding and type casters\<close>

text \<open>
  The class-scope assertion of \<^verbatim>\<open>class_\<close> requires \<^verbatim>\<open>is_base_caster_v<make_caster<Type>>\<close>
  and otherwise reports "You attempted to bind a type that is already intercepted by a
  type caster": a type is claimed by the competing value-conversion (type caster)
  mechanism exactly when its caster is not the base caster.
\<close>

definition intercepted_by_type_caster :: "cxx_env \<Rightarrow> type_info \<Rightarrow> bool" where
  "intercepted_by_type_caster env T = (\<not> is_base_caster_v env T)"

section \<open>A concrete program\<close>

text \<open>
  A small set of native types, used to run the builders on concrete inputs:
  \<open>Point\<close>, a trivially copyable struct; \<open>Widget\<close>, with user-provided copy, move and
  destructor, shared ownership and a constructor from \<open>int\<close>; \<open>PyWidget\<close>, its alias
  (trampoline) subclass, both also constructible from a \<open>Point\<close>; the abstract \<open>Shape\<close>,
  its subclass \<open>Circle\<close> and its default-constructible alias \<open>PyShape\<close>; \<open>const Circle\<close>,
  which \<^verbatim>\<open>std::is_base_of\<close> relates to \<open>Circle\<close> in both directions, as it ignores
  cv-qualifiers; the enumeration \<open>Color\<close>; the plain-data \<open>Payload\<close>; \<open>Mixed\<close>, a struct
  with public and private members, trivially default-constructible but not
  standard-layout and so not a POD; and \<open>int\<close> and \<open>IntVec\<close> (a vector of integers), which
  type casters convert by value.
\<close>

definition example_env :: cxx_env where
  "example_env =
     \<lparr> sizeof = (\<lambda>T. if T = ''Widget'' then 32 else if T = ''PyWidget'' then 40
                      else if T = ''Payload'' then 16 else if T = ''Color'' then 4 else 8),
       alignof = (\<lambda>T. if T = ''Color'' then 4 else 8),
       alignof_void_ptr = 8,
       sizeof_enum_supplement = 24,
       is_base_of_v = (\<lambda>B D. B \<noteq> ''Color'' \<and> B \<noteq> ''int'' \<and>
                          (B = D \<or> (B = ''Widget'' \<and> D = ''PyWidget'')
                                 \<or> (B = ''Shape'' \<and> D = ''Circle'')
                                 \<or> (B = ''Shape'' \<and> D = ''PyShape'')
                                 \<or> (B = ''Shape'' \<and> D = ''const Circle'')
                                 \<or> (B = ''const Circle'' \<and> D = ''Circle'')
                                 \<or> (B = ''Circle'' \<and> D = ''const Circle''))),
       is_enum_v = (\<lambda>T. T = ''Color''),
       underlying_is_signed_v = (\<lambda>T. T = ''Color''),
       is_constructible_v = (\<lambda>T Args.
            ((T = ''Widget'' \<or> T = ''PyWidget'') \<and> (Args = [''int''] \<or> Args = [''Point''])) \<or>
            (T = ''Point'' \<and> Args = [''int'', ''int'']) \<or> (T = ''PyShape'' \<and> Args = [])),
       braced_init_ok = (\<lambda>T Args.
            ((T = ''Widget'' \<or> T = ''PyWidget'') \<and> (Args = [''int''] \<or> Args = [''Point''])) \<or>
            (T = ''Point'' \<and> Args = [''int'', ''int'']) \<or> (T = ''PyShape'' \<and> Args = [])),
       is_trivially_default_constructible_v = (\<lambda>T. T \<noteq> ''Widget'' \<and> T \<noteq> ''PyWidget''),
       is_pod_v = (\<lambda>T. T = ''Payload'' \<or> T = ''Point'' \<or> T = ''Color'' \<or> T = ''int''),
       is_trivially_copyable_v = (\<lambda>T. T \<noteq> ''Widget'' \<and> T \<noteq> ''PyWidget'' \<and> T \<noteq> ''IntVec''),
       is_copy_constructible_v = (\<lambda>T. True),
       is_trivially_copy_constructible_v = (\<lambda>T. T \<noteq> ''Widget'' \<and> T \<noteq> ''PyWidget''),
       is_move_constructible_v = (\<lambda>T. True),
       is_trivially_move_constructible_v = (\<lambda>T. T \<noteq> ''Widget'' \<and> T \<noteq> ''PyWidget''),
       is_destructible_v = (\<lambda>T. True),
       is_trivially_destructible_v = (\<lambda>T. T \<noteq> ''Widget'' \<and> T \<noteq> ''PyWidget''),
       has_shared_from_this_v = (\<lambda>T. T = ''Widget''),
       is_base_caster_v = (\<lambda>T. T \<noteq> ''int'' \<and> T \<noteq> ''IntVec''),
       is_class_caster_v = (\<lambda>T. T \<noteq> ''int'' \<and> T \<noteq> ''IntVec'') \<rparr>"

text \<open>The class object of \<open>class_<Widget, PyWidget>\<close> before any member is registered,
  an empty conversion registry, and the assignment operators of a vector of integers:
  copying leaves the source as it is, moving leaves it empty.\<close>

definition widget_cl :: class_obj where
  "widget_cl = \<lparr> cl_Type = ''Widget'', cl_Alias = ''PyWidget'', cl_defs = [], cl_props = [] \<rparr>"


definition vec_ops :: "int list assign_ops" where
  "vec_ops = \<lparr> copy_assign = (\<lambda>dst src. src), move_assign = (\<lambda>dst src. (src, [])) \<rparr>"

text \<open>The class object of \<open>class_<Shape, PyShape>\<close> before any member is registered.\<close>

definition shape_cl :: class_obj where
  "shape_cl = \<lparr> cl_Type = ''Shape'', cl_Alias = ''PyShape'', cl_defs = [], cl_props = [] \<rparr>"

text \<open>Casters and constructors: the caster of \<open>int\<close> accepts the host objects 5 and 6
  (the Python integers 3 and -1) and registers nothing for release; the constructor of
  \<open>Widget\<close> from an \<open>int\<close> throws on a negative value, so it completes for object 5 and
  not for object 6.\<close>

definition example_casters :: "type_info \<Rightarrow> caster" where
  "example_casters =
     (\<lambda>T. \<lparr> accepts = (\<lambda>src fl. T = ''int'' \<and> (src = 5 \<or> src = 6)), registers = (\<lambda>src. []) \<rparr>)"


text \<open>An object whose members all hold the vector \<open>[1]\<close>.\<close>

definition example_object :: "nat \<Rightarrow> int list" where
  "example_object = (\<lambda>m. [1])"

text \<open>A host state with two objects: object 1 holds a \<open>Widget\<close> owned by a live
  \<^verbatim>\<open>shared_ptr\<close> (control block 0, one owner); object 2 holds one that no
  \<^verbatim>\<open>shared_ptr\<close> owns.\<close>

definition example_state :: host_state where
  "example_state =
     \<lparr> weak_this = (\<lambda>ob. if ob = 1 then Some 0 else None),
       use_count = (\<lambda>cb. if cb = 0 then 1 else 0),
       keep_alive_list = (\<lambda>ob. []) \<rparr>"

section \<open>Flag arithmetic\<close>

lemma bit_flags_or: "bit (flags_or f c) n \<longleftrightarrow> bit f n \<or> (n < 24 \<and> bit c n)"
  by (auto simp: flags_or_def bit_simps dest: bit_imp_le_length)

lemma flags_and_zero: "n < 24 \<Longrightarrow> flags_and f (push_bit n 1) = 0 \<longleftrightarrow> \<not> bit f n"
  unfolding flags_and_def
  by (simp add: and_exp_eq_0_iff_not_bit bit_simps)

lemma has_flag_bit: "n < 24 \<Longrightarrow> has_flag f (push_bit n 1) \<longleftrightarrow> bit f n"
  unfolding has_flag_def by (simp only: flags_and_zero) simp

lemmas flag_defs =
  is_destructible_def is_copy_constructible_def is_move_constructible_def has_destruct_def
  has_copy_def has_move_def has_implicit_conversions_def is_python_type_def is_final_def
  has_dynamic_attr_def intrusive_ptr_def has_shared_from_this_def weak_py_def
  has_supplement_def has_doc_def has_base_def has_base_py_def has_type_slots_def

lemma bit_flag_consts [simp]:
  "bit is_destructible n \<longleftrightarrow> n = 0"
  "bit is_copy_constructible n \<longleftrightarrow> n = 1"
  "bit is_move_constructible n \<longleftrightarrow> n = 2"
  "bit has_destruct n \<longleftrightarrow> n = 4"
  "bit has_copy n \<longleftrightarrow> n = 5"
  "bit has_move n \<longleftrightarrow> n = 6"
  "bit is_final n \<longleftrightarrow> n = 9"
  "bit has_dynamic_attr n \<longleftrightarrow> n = 10"
  "bit intrusive_ptr n \<longleftrightarrow> n = 11"
  "bit has_shared_from_this n \<longleftrightarrow> n = 12"
  "bit weak_py n \<longleftrightarrow> n = 13"
  "bit has_supplement n \<longleftrightarrow> n = 19"
  "bit has_doc n \<longleftrightarrow> n = 20"
  "bit has_base n \<longleftrightarrow> n = 21"
  "bit has_base_py n \<longleftrightarrow> n = 22"
  "bit has_type_slots n \<longleftrightarrow> n = 23"
  unfolding flag_defs by (auto simp add: bit_simps simp del: push_bit_of_1)

lemma has_flag_consts:
  "has_flag f is_destructible \<longleftrightarrow> bit f 0"
  "has_flag f is_copy_constructible \<longleftrightarrow> bit f 1"
  "has_flag f is_move_constructible \<longleftrightarrow> bit f 2"
  "has_flag f has_destruct \<longleftrightarrow> bit f 4"
  "has_flag f has_copy \<longleftrightarrow> bit f 5"
  "has_flag f has_move \<longleftrightarrow> bit f 6"
  "has_flag f is_final \<longleftrightarrow> bit f 9"
  "has_flag f has_shared_from_this \<longleftrightarrow> bit f 12"
  "has_flag f has_supplement \<longleftrightarrow> bit f 19"
  "has_flag f has_type_slots \<longleftrightarrow> bit f 23"
  unfolding flag_defs by (simp_all only: has_flag_bit)

lemma flags_and_has_type_slots: "flags_and f has_type_slots = 0 \<longleftrightarrow> \<not> bit f 23"
  unfolding has_type_slots_def by (simp only: flags_and_zero)

section \<open>The concrete program, evaluated\<close>

lemma example_env_simps [simp]:
  "sizeof example_env T = (if T = ''Widget'' then 32 else if T = ''PyWidget'' then 40
                      else if T = ''Payload'' then 16 else if T = ''Color'' then 4 else 8)"
  "alignof example_env T = (if T = ''Color'' then 4 else 8)"
  "alignof_void_ptr example_env = 8"
  "sizeof_enum_supplement example_env = 24"
  "is_base_of_v example_env B D \<longleftrightarrow> B \<noteq> ''Color'' \<and> B \<noteq> ''int'' \<and>
                          (B = D \<or> (B = ''Widget'' \<and> D = ''PyWidget'')
                                 \<or> (B = ''Shape'' \<and> D = ''Circle'')
                                 \<or> (B = ''Shape'' \<and> D = ''PyShape'')
                                 \<or> (B = ''Shape'' \<and> D = ''const Circle'')
                                 \<or> (B = ''const Circle'' \<and> D = ''Circle'')
                                 \<or> (B = ''Circle'' \<and> D = ''const Circle''))"
  "is_enum_v example_env T \<longleftrightarrow> T = ''Color''"
  "underlying_is_signed_v example_env T \<longleftrightarrow> T = ''Color''"
  "is_constructible_v example_env T Args \<longleftrightarrow>
     ((T = ''Widget'' \<or> T = ''PyWidget'') \<and> (Args = [''int''] \<or> Args = [''Point''])) \<or>
     (T = ''Point'' \<and> Args = [''int'', ''int'']) \<or> (T = ''PyShape'' \<and> Args = [])"
  "braced_init_ok example_env T Args \<longleftrightarrow>
     ((T = ''Widget'' \<or> T = ''PyWidget'') \<and> (Args = [''int''] \<or> Args = [''Point''])) \<or>
     (T = ''Point'' \<and> Args = [''int'', ''int'']) \<or> (T = ''PyShape'' \<and> Args = [])"
  "is_pod_v example_env T \<longleftrightarrow> T = ''Payload'' \<or> T = ''Point'' \<or> T = ''Color'' \<or> T = ''int''"
  "is_trivially_default_constructible_v example_env T \<longleftrightarrow> T \<noteq> ''Widget'' \<and> T \<noteq> ''PyWidget''"
  "is_trivially_copyable_v example_env T \<longleftrightarrow> T \<noteq> ''Widget'' \<and> T \<noteq> ''PyWidget'' \<and> T \<noteq> ''IntVec''"
  "is_copy_constructible_v example_env T"
  "is_trivially_copy_constructible_v example_env T \<longleftrightarrow> T \<noteq> ''Widget'' \<and> T \<noteq> ''PyWidget''"
  "is_move_constructible_v example_env T"
  "is_trivially_move_constructible_v example_env T \<longleftrightarrow> T \<noteq> ''Widget'' \<and> T \<noteq> ''PyWidget''"
  "is_destructible_v example_env T"
  "is_trivially_destructible_v example_env T \<longleftrightarrow> T \<noteq> ''Widget'' \<and> T \<noteq> ''PyWidget''"
  "has_shared_from_this_v example_env T \<longleftrightarrow> T = ''Widget''"
  "is_base_caster_v example_env T \<longleftrightarrow> T \<noteq> ''int'' \<and> T \<noteq> ''IntVec''"
  "is_class_caster_v example_env T \<longleftrightarrow> T \<noteq> ''int'' \<and> T \<noteq> ''IntVec''"
  by (simp_all add: example_env_def)

lemma example_point_asserts: "class_static_asserts example_env ''Point'' [] = None"
  by (simp add: class_static_asserts_def Base_def Alias_def)

lemma example_point_supplement:
  "class_ctor example_env ''Point'' [] (Some 1) ''Point'' [Supplement ''Payload''] =
     Inr ((class_probed example_env ''Point'' [] (Some 1) ''Point'')
            \<lparr>flags := flags_or (flags (class_probed example_env ''Point'' [] (Some 1) ''Point''))
                        (has_supplement OR is_final),
             supplement := Init 16\<rparr>)"
  by (simp add: class_ctor_def example_point_asserts type_extra_apply_supplement_def)

section \<open>Trait application\<close>

lemmas type_extra_apply_defs =
  type_extra_apply_handle_def type_extra_apply_doc_def type_extra_apply_type_slots_def
  type_extra_apply_type_slots_callback_def type_extra_apply_intrusive_ptr_def
  type_extra_apply_weak_py_def type_extra_apply_is_final_def type_extra_apply_dynamic_attr_def
  type_extra_apply_supplement_def

lemma type_extra_apply_flags_mono:
  assumes "type_extra_apply env t e = Inr t'" and "bit (flags t) n"
  shows "bit (flags t') n"
  using assms
  by (cases e) (auto simp: type_extra_apply_defs Let_def bit_flags_or split: if_splits)

lemma apply_extras_flags_mono:
  "apply_extras env t es = Inr t' \<Longrightarrow> bit (flags t) n \<Longrightarrow> bit (flags t') n"
proof (induction es arbitrary: t)
  case Nil
  then show ?case by simp
next
  case (Cons e es)
  then obtain t1 where s: "type_extra_apply env t e = Inr t1" and r: "apply_extras env t1 es = Inr t'"
    by (auto split: sum.splits)
  from type_extra_apply_flags_mono[OF s Cons.prems(2)] Cons.IH[OF r] show ?case by blast
qed

lemma supplement_step:
  assumes "type_extra_apply env t (Supplement S) = Inr t'"
  shows "bit (flags t') 9" and "bit (flags t') 19" and "supplement t' = Init (sizeof env S)"
  using assms
  by (auto simp: type_extra_apply_supplement_def bit_flags_or bit_simps split: if_splits)

lemma apply_extras_supplement_final:
  "apply_extras env t es = Inr t' \<Longrightarrow> Supplement S \<in> set es \<Longrightarrow> bit (flags t') 9"
proof (induction es arbitrary: t)
  case Nil
  then show ?case by simp
next
  case (Cons e es)
  then obtain t1 where s: "type_extra_apply env t e = Inr t1" and r: "apply_extras env t1 es = Inr t'"
    by (auto split: sum.splits)
  show ?case
  proof (cases "e = Supplement S")
    case True
    with s have "bit (flags t1) 9" by (simp add: supplement_step(1))
    with r show ?thesis by (rule apply_extras_flags_mono)
  next
    case False
    with Cons.prems(2) have "Supplement S \<in> set es" by simp
    with r show ?thesis by (rule Cons.IH)
  qed
qed

text \<open>
  C10. Applying the supplement-reservation trait to a descriptor under construction also
  sets the is-final flag. Hence every class descriptor built with a supplement among
  its traits is final (it forbids host-language subclassing), whether or not the final
  marker is among the traits.
\<close>

theorem supplement_implies_final:
  "(type_extra_apply env t (Supplement S) = Inr t' \<longrightarrow> has_flag (flags t') is_final) \<and>
   (class_ctor env T Ts scope_h name_s extras = Inr d \<and> Supplement S \<in> set extras
      \<longrightarrow> has_flag (flags d) is_final)"
proof (intro conjI impI)
  assume "type_extra_apply env t (Supplement S) = Inr t'"
  then show "has_flag (flags t') is_final"
    by (simp add: has_flag_consts supplement_step(1))
next
  assume a: "class_ctor env T Ts scope_h name_s extras = Inr d \<and> Supplement S \<in> set extras"
  then have "apply_extras env (class_probed env T Ts scope_h name_s) extras = Inr d"
    by (simp add: class_ctor_def split: option.splits)
  moreover from a have "Supplement S \<in> set extras" by simp
  ultimately have "bit (flags d) 9" by (rule apply_extras_supplement_final)
  then show "has_flag (flags d) is_final" by (simp add: has_flag_consts)
qed

text \<open>The class \<open>Point\<close> built with the single trait \<open>supplement<Payload>\<close>, and no final
  marker, is final.\<close>

theorem supplement_implies_final_witness:
  "Is_final \<notin> set [Supplement ''Payload''] \<and>
   (\<exists>d. class_ctor example_env ''Point'' [] (Some 1) ''Point'' [Supplement ''Payload''] = Inr d \<and>
        has_flag (flags d) is_final)"
proof -
  obtain d where b: "class_ctor example_env ''Point'' [] (Some 1) ''Point'' [Supplement ''Payload''] = Inr d"
    using example_point_supplement by blast
  have m: "Supplement ''Payload'' \<in> set [Supplement ''Payload'']" by simp
  from supplement_implies_final [of example_env _ "''Payload''" _ "''Point''" "[]" "Some 1" "''Point''"
      "[Supplement ''Payload'']" d] b m
  have "has_flag (flags d) is_final" by blast
  with b show ?thesis by simp
qed

section \<open>The slot traits\<close>

lemma class_probed_flags_23: "\<not> bit (flags (class_probed env T Ts scope_h name_s)) 23"
  by (simp add: class_probed_def class_probe_shared_def class_probe_destruct_def
      class_probe_move_def class_probe_copy_def class_probe_base_def class_fresh_def
      Let_def bit_flags_or)

text \<open>In the class builder the flag is clear until the first of the two slot traits:
  the probing leaves it clear, and no other trait sets it.\<close>

lemma apply_extras_before_slot_traits:
  "apply_extras env t es = Inr t' \<Longrightarrow> \<not> bit (flags t) 23 \<Longrightarrow>
     (\<And>c. Type_slots c \<notin> set es) \<Longrightarrow> (\<And>c. Type_slots_callback c \<notin> set es) \<Longrightarrow>
     \<not> bit (flags t') 23"
proof (induction es arbitrary: t)
  case Nil
  then show ?case by simp
next
  case (Cons e es)
  then obtain t1 where s: "type_extra_apply env t e = Inr t1" and r: "apply_extras env t1 es = Inr t'"
    by (auto split: sum.splits)
  from Cons.prems(3) Cons.prems(4)
  have ne: "\<And>c. e \<noteq> Type_slots c" "\<And>c. e \<noteq> Type_slots_callback c" by auto
  with s Cons.prems(2) have "\<not> bit (flags t1) 23"
    by (cases e) (auto simp: type_extra_apply_defs bit_flags_or bit_or_iff split: if_splits)
  moreover from Cons.prems(3) have "\<And>c. Type_slots c \<notin> set es" by auto
  moreover from Cons.prems(4) have "\<And>c. Type_slots_callback c \<notin> set es" by auto
  ultimately show ?case using Cons.IH[OF r] by blast
qed

text \<open>
  C4. On a descriptor to which neither slot trait has been applied yet (the
  has-type-slots flag is clear, as in every class descriptor before the first of the
  two), the first of the fixed-slot-table trait and the slot-computing-callback trait
  sets the has-type-slots flag and sets the other variant's field to null; applying the
  other variant afterwards overwrites only its own field and leaves the flag set. Both
  orders give the same descriptor: the flag ORed in once, both fields holding the values
  supplied.
\<close>

theorem type_slots_either_order:
  assumes "\<not> has_flag (flags t) has_type_slots"
  shows "has_flag (flags (type_extra_apply_type_slots t c)) has_type_slots \<and>
         type_slots_callback (type_extra_apply_type_slots t c) = Init None \<and>
         type_slots (type_extra_apply_type_slots t c) = Init c \<and>
         has_flag (flags (type_extra_apply_type_slots_callback t cb)) has_type_slots \<and>
         type_slots (type_extra_apply_type_slots_callback t cb) = Init None \<and>
         type_slots_callback (type_extra_apply_type_slots_callback t cb) = Init cb \<and>
         type_extra_apply_type_slots_callback (type_extra_apply_type_slots t c) cb =
           (type_extra_apply_type_slots t c)\<lparr>type_slots_callback := Init cb\<rparr> \<and>
         type_extra_apply_type_slots (type_extra_apply_type_slots_callback t cb) c =
           (type_extra_apply_type_slots_callback t cb)\<lparr>type_slots := Init c\<rparr> \<and>
         type_extra_apply_type_slots_callback (type_extra_apply_type_slots t c) cb =
           type_extra_apply_type_slots (type_extra_apply_type_slots_callback t cb) c \<and>
         type_extra_apply_type_slots_callback (type_extra_apply_type_slots t c) cb =
           t\<lparr>flags := flags_or (flags t) has_type_slots,
             type_slots := Init c, type_slots_callback := Init cb\<rparr>"
proof -
  from assms have clear: "\<not> bit (flags t) 23" by (simp add: has_flag_consts)
  have set1: "bit (flags_or (flags t) has_type_slots) 23" by (simp add: bit_flags_or)
  show ?thesis
    using clear set1
    by (simp add: type_extra_apply_type_slots_def type_extra_apply_type_slots_callback_def
        Let_def flags_and_has_type_slots has_flag_consts)
qed

text \<open>
  The probed descriptor of \<open>Point\<close> has the flag clear, and the two orders agree on it.
\<close>

theorem type_slots_either_order_witness:
  "\<not> has_flag (flags (class_probed example_env ''Point'' [] (Some 7) ''Point'')) has_type_slots \<and>
   has_flag (flags (type_extra_apply_type_slots
       (class_probed example_env ''Point'' [] (Some 7) ''Point'') (Some 3))) has_type_slots \<and>
   type_slots_callback (type_extra_apply_type_slots
       (class_probed example_env ''Point'' [] (Some 7) ''Point'') (Some 3)) = Init None \<and>
   type_extra_apply_type_slots_callback
       (type_extra_apply_type_slots (class_probed example_env ''Point'' [] (Some 7) ''Point'') (Some 3))
       (Some (Extern_fn 5)) =
     type_extra_apply_type_slots
       (type_extra_apply_type_slots_callback (class_probed example_env ''Point'' [] (Some 7) ''Point'')
          (Some (Extern_fn 5)))
       (Some 3)"
proof -
  have h: "\<not> has_flag (flags (class_probed example_env ''Point'' [] (Some 7) ''Point'')) has_type_slots"
    by (simp add: has_flag_consts class_probed_flags_23)
  from type_slots_either_order [OF h, of "Some 3" "Some (Extern_fn 5)"] h show ?thesis by blast
qed

section \<open>The class builder\<close>

lemma type_extra_apply_hooks:
  assumes "type_extra_apply env t e = Inr t'"
  shows "copy t' = copy t" and "move t' = move t" and "destruct t' = destruct t"
    and "keep_shared_from_this_alive t' = keep_shared_from_this_alive t"
    and "scope t' = scope t"
  using assms
  by (cases e; auto simp: type_extra_apply_defs Let_def split: if_splits)+

lemma type_extra_apply_low_bits:
  assumes "type_extra_apply env t e = Inr t'" and "n < 9 \<or> n = 12"
  shows "bit (flags t') n = bit (flags t) n"
  using assms
  by (cases e) (auto simp: type_extra_apply_defs Let_def bit_flags_or bit_or_iff split: if_splits)

lemma apply_extras_hooks:
  "apply_extras env t es = Inr t' \<Longrightarrow>
     copy t' = copy t \<and> move t' = move t \<and> destruct t' = destruct t \<and>
     keep_shared_from_this_alive t' = keep_shared_from_this_alive t \<and> scope t' = scope t"
proof (induction es arbitrary: t)
  case Nil
  then show ?case by simp
next
  case (Cons e es)
  then obtain t1 where s: "type_extra_apply env t e = Inr t1" and r: "apply_extras env t1 es = Inr t'"
    by (auto split: sum.splits)
  from Cons.IH[OF r] type_extra_apply_hooks[OF s] show ?case by simp
qed

lemma apply_extras_low_bits:
  "apply_extras env t es = Inr t' \<Longrightarrow> n < 9 \<or> n = 12 \<Longrightarrow> bit (flags t') n = bit (flags t) n"
proof (induction es arbitrary: t)
  case Nil
  then show ?case by simp
next
  case (Cons e es)
  then obtain t1 where s: "type_extra_apply env t e = Inr t1" and r: "apply_extras env t1 es = Inr t'"
    by (auto split: sum.splits)
  from Cons.IH[OF r Cons.prems(2)] type_extra_apply_low_bits[OF s Cons.prems(2)] show ?case by simp
qed

lemmas class_probe_defs =
  class_probed_def class_probe_shared_def class_probe_destruct_def
  class_probe_move_def class_probe_copy_def class_probe_base_def class_fresh_def

lemma class_probed_bits:
  "bit (flags (class_probed env T Ts scope_h name_s)) 0 \<longleftrightarrow> is_destructible_v env T"
  "bit (flags (class_probed env T Ts scope_h name_s)) 1 \<longleftrightarrow> is_copy_constructible_v env T"
  "bit (flags (class_probed env T Ts scope_h name_s)) 2 \<longleftrightarrow> is_move_constructible_v env T"
  "bit (flags (class_probed env T Ts scope_h name_s)) 4 \<longleftrightarrow>
     is_destructible_v env T \<and> \<not> is_trivially_destructible_v env T"
  "bit (flags (class_probed env T Ts scope_h name_s)) 5 \<longleftrightarrow>
     is_copy_constructible_v env T \<and> \<not> is_trivially_copy_constructible_v env T"
  "bit (flags (class_probed env T Ts scope_h name_s)) 6 \<longleftrightarrow>
     is_move_constructible_v env T \<and> \<not> is_trivially_move_constructible_v env T"
  "bit (flags (class_probed env T Ts scope_h name_s)) 12 \<longleftrightarrow> has_shared_from_this_v env T"
  by (simp_all add: class_probe_defs Let_def bit_flags_or)

lemma class_probed_hooks:
  "copy (class_probed env T Ts scope_h name_s) =
     (if is_copy_constructible_v env T \<and> \<not> is_trivially_copy_constructible_v env T
      then Init (Some (Wrap_copy T)) else Indeterminate)"
  "move (class_probed env T Ts scope_h name_s) =
     (if is_move_constructible_v env T \<and> \<not> is_trivially_move_constructible_v env T
      then Init (Some (Wrap_move T)) else Indeterminate)"
  "destruct (class_probed env T Ts scope_h name_s) =
     (if is_destructible_v env T \<and> \<not> is_trivially_destructible_v env T
      then Init (Some (Wrap_destruct T)) else Indeterminate)"
  "keep_shared_from_this_alive (class_probed env T Ts scope_h name_s) =
     (if has_shared_from_this_v env T
      then Init (Some (Keep_shared_from_this_alive_lambda T)) else Indeterminate)"
  by (simp_all add: class_probe_defs Let_def)

lemma class_ctor_Inr:
  "class_ctor env T Ts scope_h name_s extras = Inr d \<Longrightarrow>
     class_static_asserts env T Ts = None \<and>
     apply_extras env (class_probed env T Ts scope_h name_s) extras = Inr d"
  by (simp add: class_ctor_def split: option.splits)

text \<open>
  C1. For every type registered through the class builder, whatever traits are applied:
  each hook flag (has-copy, has-move, has-destruct) is set in the descriptor if and only
  if the builder installed the corresponding function pointer (the wrapper for \<open>T\<close>), and
  is clear if and only if the pointer was never assigned; when the native operation is
  trivial, neither the flag nor the pointer is set; and each capability flag
  (is-copy-constructible, is-move-constructible, is-destructible) is set exactly when
  the capability exists. A hook is installed exactly when the capability exists and is
  not trivial.
\<close>

theorem class_hook_flags_iff_installed:
  assumes "class_ctor env T Ts scope_h name_s extras = Inr d"
  shows "(has_flag (flags d) has_copy \<longleftrightarrow> copy d = Init (Some (Wrap_copy T))) \<and>
         (has_flag (flags d) has_move \<longleftrightarrow> move d = Init (Some (Wrap_move T))) \<and>
         (has_flag (flags d) has_destruct \<longleftrightarrow> destruct d = Init (Some (Wrap_destruct T))) \<and>
         (\<not> has_flag (flags d) has_copy \<longleftrightarrow> copy d = Indeterminate) \<and>
         (\<not> has_flag (flags d) has_move \<longleftrightarrow> move d = Indeterminate) \<and>
         (\<not> has_flag (flags d) has_destruct \<longleftrightarrow> destruct d = Indeterminate) \<and>
         (is_trivially_copy_constructible_v env T \<longrightarrow>
            \<not> has_flag (flags d) has_copy \<and> copy d = Indeterminate) \<and>
         (is_trivially_move_constructible_v env T \<longrightarrow>
            \<not> has_flag (flags d) has_move \<and> move d = Indeterminate) \<and>
         (is_trivially_destructible_v env T \<longrightarrow>
            \<not> has_flag (flags d) has_destruct \<and> destruct d = Indeterminate) \<and>
         (has_flag (flags d) is_copy_constructible \<longleftrightarrow> is_copy_constructible_v env T) \<and>
         (has_flag (flags d) is_move_constructible \<longleftrightarrow> is_move_constructible_v env T) \<and>
         (has_flag (flags d) is_destructible \<longleftrightarrow> is_destructible_v env T) \<and>
         (has_flag (flags d) has_copy \<longleftrightarrow>
            is_copy_constructible_v env T \<and> \<not> is_trivially_copy_constructible_v env T) \<and>
         (has_flag (flags d) has_move \<longleftrightarrow>
            is_move_constructible_v env T \<and> \<not> is_trivially_move_constructible_v env T) \<and>
         (has_flag (flags d) has_destruct \<longleftrightarrow>
            is_destructible_v env T \<and> \<not> is_trivially_destructible_v env T)"
proof -
  let ?p = "class_probed env T Ts scope_h name_s"
  from assms have r: "apply_extras env ?p extras = Inr d" by (simp add: class_ctor_Inr)
  have hooks: "copy d = copy ?p" "move d = move ?p" "destruct d = destruct ?p"
    using apply_extras_hooks[OF r] by simp_all
  have c: "has_flag (flags d) is_copy_constructible \<longleftrightarrow> is_copy_constructible_v env T"
    using apply_extras_low_bits[OF r, of 1] class_probed_bits(2)[of env T Ts scope_h name_s]
    by (simp add: has_flag_consts)
  have m: "has_flag (flags d) is_move_constructible \<longleftrightarrow> is_move_constructible_v env T"
    using apply_extras_low_bits[OF r, of 2] class_probed_bits(3)[of env T Ts scope_h name_s]
    by (simp add: has_flag_consts)
  have x: "has_flag (flags d) is_destructible \<longleftrightarrow> is_destructible_v env T"
    using apply_extras_low_bits[OF r, of 0] class_probed_bits(1)[of env T Ts scope_h name_s]
    by (simp add: has_flag_consts)
  have hc: "has_flag (flags d) has_copy \<longleftrightarrow>
      is_copy_constructible_v env T \<and> \<not> is_trivially_copy_constructible_v env T"
    using apply_extras_low_bits[OF r, of 5] class_probed_bits(5)[of env T Ts scope_h name_s]
    by (simp add: has_flag_consts)
  have hm: "has_flag (flags d) has_move \<longleftrightarrow>
      is_move_constructible_v env T \<and> \<not> is_trivially_move_constructible_v env T"
    using apply_extras_low_bits[OF r, of 6] class_probed_bits(6)[of env T Ts scope_h name_s]
    by (simp add: has_flag_consts)
  have hx: "has_flag (flags d) has_destruct \<longleftrightarrow>
      is_destructible_v env T \<and> \<not> is_trivially_destructible_v env T"
    using apply_extras_low_bits[OF r, of 4] class_probed_bits(4)[of env T Ts scope_h name_s]
    by (simp add: has_flag_consts)
  show ?thesis
    by (simp add: c m x hc hm hx hooks class_probed_hooks)
qed

text \<open>
  \<open>Widget\<close> (user-provided copy constructor) gets the flag and the wrapper; \<open>Point\<close>
  (trivially copyable) gets neither, and still the capability flag.
\<close>

theorem class_hook_flags_iff_installed_witness:
  "(\<exists>d. class_ctor example_env ''Widget'' [''PyWidget''] (Some 7) ''Widget'' [Dynamic_attr] = Inr d \<and>
        has_flag (flags d) has_copy \<and> copy d = Init (Some (Wrap_copy ''Widget'')) \<and>
        has_flag (flags d) is_copy_constructible) \<and>
   (\<exists>d. class_ctor example_env ''Point'' [] (Some 7) ''Point'' [Dynamic_attr] = Inr d \<and>
        \<not> has_flag (flags d) has_copy \<and> copy d = Indeterminate \<and>
        has_flag (flags d) is_copy_constructible)"
proof -
  have a: "class_static_asserts example_env ''Widget'' [''PyWidget''] = None"
    by (simp add: class_static_asserts_def Base_def Alias_def is_base_def is_alias_def)
  obtain d1 where d1: "class_ctor example_env ''Widget'' [''PyWidget''] (Some 7) ''Widget'' [Dynamic_attr] = Inr d1"
    by (simp add: class_ctor_def a)
  obtain d2 where d2: "class_ctor example_env ''Point'' [] (Some 7) ''Point'' [Dynamic_attr] = Inr d2"
    by (simp add: class_ctor_def example_point_asserts)
  from class_hook_flags_iff_installed [OF d1]
  have w: "has_flag (flags d1) has_copy \<and> copy d1 = Init (Some (Wrap_copy ''Widget'')) \<and>
        has_flag (flags d1) is_copy_constructible"
    by auto
  from class_hook_flags_iff_installed [OF d2]
  have p: "\<not> has_flag (flags d2) has_copy \<and> copy d2 = Indeterminate \<and>
        has_flag (flags d2) is_copy_constructible"
    by auto
  from d1 d2 w p show ?thesis by blast
qed

text \<open>
  C3. The class builder sets the shared-ownership-support flag exactly when \<open>T\<close> has the
  shared-from-this capability, and then installs the keep-alive hook. For every host
  handle \<open>self\<close>: if a strong reference can be obtained from the weak-ownership slot of the
  instance (the slot is not empty and not expired), the hook returns true and appends
  exactly one entry, the owned reference with its release callback, to the keep-alive
  list of \<open>self\<close>, leaving every other object's list as it was; otherwise it returns
  false and the state, the keep-alive lists included, is unchanged.
\<close>

theorem shared_from_this_keep_alive:
  "(class_ctor env T Ts scope_h name_s extras = Inr d \<longrightarrow>
      (has_flag (flags d) has_shared_from_this \<longleftrightarrow> has_shared_from_this_v env T) \<and>
      (has_shared_from_this_v env T \<longrightarrow>
         keep_shared_from_this_alive d = Init (Some (Keep_shared_from_this_alive_lambda T)) \<and>
         call_keep_shared_from_this_alive (keep_shared_from_this_alive d) s self =
           Some (keep_shared_from_this_alive_lambda T s self))) \<and>
   (weak_this s self = Some cb \<and> 0 < use_count s cb \<longrightarrow>
      (\<exists>s'. keep_shared_from_this_alive_lambda T s self = (True, s') \<and>
            keep_alive_list s' self =
              keep_alive_list s self @ [(Shared_ptr_box cb, Delete_shared_ptr_lambda T)] \<and>
            (\<forall>ob. ob \<noteq> self \<longrightarrow> keep_alive_list s' ob = keep_alive_list s ob) \<and>
            use_count s' cb = use_count s cb + 1 \<and> weak_this s' = weak_this s)) \<and>
   (weak_this s self = None \<or> (weak_this s self = Some cb \<and> use_count s cb = 0) \<longrightarrow>
      keep_shared_from_this_alive_lambda T s self = (False, s))"
proof (intro conjI impI)
  assume b: "class_ctor env T Ts scope_h name_s extras = Inr d"
  let ?p = "class_probed env T Ts scope_h name_s"
  from b have r: "apply_extras env ?p extras = Inr d" by (simp add: class_ctor_Inr)
  show "has_flag (flags d) has_shared_from_this \<longleftrightarrow> has_shared_from_this_v env T"
    using apply_extras_low_bits[OF r, of 12] class_probed_bits(7)[of env T Ts scope_h name_s]
    by (simp add: has_flag_consts)
  assume h: "has_shared_from_this_v env T"
  from apply_extras_hooks[OF r] h
  show k: "keep_shared_from_this_alive d = Init (Some (Keep_shared_from_this_alive_lambda T))"
    by (simp add: class_probed_hooks)
  show "call_keep_shared_from_this_alive (keep_shared_from_this_alive d) s self =
           Some (keep_shared_from_this_alive_lambda T s self)"
    by (simp add: k)
next
  assume "weak_this s self = Some cb \<and> 0 < use_count s cb"
  then show "\<exists>s'. keep_shared_from_this_alive_lambda T s self = (True, s') \<and>
            keep_alive_list s' self =
              keep_alive_list s self @ [(Shared_ptr_box cb, Delete_shared_ptr_lambda T)] \<and>
            (\<forall>ob. ob \<noteq> self \<longrightarrow> keep_alive_list s' ob = keep_alive_list s ob) \<and>
            use_count s' cb = use_count s cb + 1 \<and> weak_this s' = weak_this s"
    by (simp add: keep_shared_from_this_alive_lambda_def weak_lock_def keep_alive_def)
next
  assume "weak_this s self = None \<or> (weak_this s self = Some cb \<and> use_count s cb = 0)"
  then show "keep_shared_from_this_alive_lambda T s self = (False, s)"
    by (auto simp: keep_shared_from_this_alive_lambda_def weak_lock_def)
qed

lemma example_state_simps [simp]:
  "weak_this example_state ob = (if ob = 1 then Some 0 else None)"
  "use_count example_state cb = (if cb = 0 then 1 else 0)"
  "keep_alive_list example_state ob = []"
  by (simp_all add: example_state_def)

text \<open>
  \<open>Widget\<close> has the capability. Object 1 is owned by a live shared pointer: the hook
  succeeds and its keep-alive list gets one entry. Object 2 is not: the hook fails and
  the state is as before.
\<close>

theorem shared_from_this_keep_alive_witness:
  "(\<exists>d. class_ctor example_env ''Widget'' [''PyWidget''] (Some 7) ''Widget'' [] = Inr d \<and>
        has_flag (flags d) has_shared_from_this \<and>
        keep_shared_from_this_alive d = Init (Some (Keep_shared_from_this_alive_lambda ''Widget''))) \<and>
   (\<exists>s'. keep_shared_from_this_alive_lambda ''Widget'' example_state 1 = (True, s') \<and>
         keep_alive_list s' 1 = [(Shared_ptr_box 0, Delete_shared_ptr_lambda ''Widget'')]) \<and>
   keep_shared_from_this_alive_lambda ''Widget'' example_state 2 = (False, example_state)"
proof -
  have a: "class_static_asserts example_env ''Widget'' [''PyWidget''] = None"
    by (simp add: class_static_asserts_def Base_def Alias_def is_base_def is_alias_def)
  obtain d where d: "class_ctor example_env ''Widget'' [''PyWidget''] (Some 7) ''Widget'' [] = Inr d"
    by (simp add: class_ctor_def a)
  have h: "has_shared_from_this_v example_env ''Widget''" by simp
  have ok: "weak_this example_state 1 = Some 0 \<and> 0 < use_count example_state 0" by simp
  have no: "weak_this example_state 2 = None" by simp
  from shared_from_this_keep_alive
    [of example_env "''Widget''" "[''PyWidget'']" "Some 7" "''Widget''" "[]" d example_state 1 0]
    d h ok
  have p1: "has_flag (flags d) has_shared_from_this \<and>
        keep_shared_from_this_alive d = Init (Some (Keep_shared_from_this_alive_lambda ''Widget''))"
    and p2: "\<exists>s'. keep_shared_from_this_alive_lambda ''Widget'' example_state 1 = (True, s') \<and>
         keep_alive_list s' 1 = [(Shared_ptr_box 0, Delete_shared_ptr_lambda ''Widget'')]"
    by auto
  from shared_from_this_keep_alive
    [of example_env "''Widget''" "[''PyWidget'']" "Some 7" "''Widget''" "[]" d example_state 2 0] no
  have p3: "keep_shared_from_this_alive_lambda ''Widget'' example_state 2 = (False, example_state)"
    by blast
  from d p1 p2 p3 show ?thesis by blast
qed

section \<open>The enum builder\<close>

lemma type_extra_apply_enum_step:
  assumes "type_extra_apply_enum env ed e = Inr ed'" and "bit (flags ed) 23"
  shows "bit (flags ed') 23 \<and>
     copy ed' = copy ed \<and> move ed' = move ed \<and> destruct ed' = destruct ed \<and>
     supplement ed' = supplement ed \<and>
     type_slots_callback ed' = type_slots_callback ed \<and>
     scope ed' = scope ed \<and> is_signed ed' = is_signed ed \<and>
     type_slots ed' = (case e of Type_slots c \<Rightarrow> Init c | _ \<Rightarrow> type_slots ed)"
  using assms
  by (cases e) (auto simp: type_extra_apply_defs type_extra_apply_is_arithmetic_def Let_def
      bit_flags_or flags_and_has_type_slots)

lemma type_extra_apply_enum_bits:
  assumes "type_extra_apply_enum env ed e = Inr ed'"
  shows "(bit (flags ed) n \<longrightarrow> bit (flags ed') n) \<and>
     (n < 10 \<longrightarrow> bit (flags ed') n = bit (flags ed) n)"
  using assms
  by (cases e) (auto simp: type_extra_apply_defs type_extra_apply_is_arithmetic_def Let_def
      bit_flags_or split: if_splits)

lemma apply_extras_enum_inv:
  "apply_extras_enum env ed es = Inr ed' \<Longrightarrow> bit (flags ed) 23 \<Longrightarrow>
     bit (flags ed') 23 \<and> copy ed' = copy ed \<and> move ed' = move ed \<and> destruct ed' = destruct ed \<and>
     supplement ed' = supplement ed \<and> type_slots_callback ed' = type_slots_callback ed \<and>
     scope ed' = scope ed \<and> is_signed ed' = is_signed ed \<and>
     (type_slots ed' = type_slots ed \<or> (\<exists>c. Type_slots c \<in> set es \<and> type_slots ed' = Init c))"
proof (induction es arbitrary: ed)
  case Nil
  then show ?case by simp
next
  case (Cons e es)
  then obtain e1 where s: "type_extra_apply_enum env ed e = Inr e1"
    and r: "apply_extras_enum env e1 es = Inr ed'"
    by (auto split: sum.splits)
  from type_extra_apply_enum_step[OF s Cons.prems(2)]
  have st: "bit (flags e1) 23" "copy e1 = copy ed" "move e1 = move ed" "destruct e1 = destruct ed"
    "supplement e1 = supplement ed" "type_slots_callback e1 = type_slots_callback ed"
    "scope e1 = scope ed" "is_signed e1 = is_signed ed"
    "type_slots e1 = (case e of Type_slots c \<Rightarrow> Init c | _ \<Rightarrow> type_slots ed)"
    by simp_all
  from Cons.IH[OF r st(1)] have ih: "bit (flags ed') 23 \<and> copy ed' = copy e1 \<and> move ed' = move e1 \<and>
     destruct ed' = destruct e1 \<and> supplement ed' = supplement e1 \<and>
     type_slots_callback ed' = type_slots_callback e1 \<and> scope ed' = scope e1 \<and>
     is_signed ed' = is_signed e1 \<and>
     (type_slots ed' = type_slots e1 \<or> (\<exists>c. Type_slots c \<in> set es \<and> type_slots ed' = Init c))" .
  have ts: "type_slots ed' = type_slots ed \<or> (\<exists>c. Type_slots c \<in> set (e # es) \<and> type_slots ed' = Init c)"
  proof (cases "\<exists>c. Type_slots c \<in> set es \<and> type_slots ed' = Init c")
    case True
    then show ?thesis by auto
  next
    case False
    with ih have eq: "type_slots ed' = type_slots e1" by blast
    show ?thesis
    proof (cases e)
      case (Type_slots c)
      with st(9) eq have "type_slots ed' = Init c" by simp
      with Type_slots show ?thesis by auto
    qed (use st(9) eq in auto)
  qed
  from ih st ts show ?case by simp
qed

lemma apply_extras_enum_bits:
  "apply_extras_enum env ed es = Inr ed' \<Longrightarrow>
     (bit (flags ed) n \<longrightarrow> bit (flags ed') n) \<and> (n < 10 \<longrightarrow> bit (flags ed') n = bit (flags ed) n)"
proof (induction es arbitrary: ed)
  case Nil
  then show ?case by simp
next
  case (Cons e es)
  then obtain e1 where s: "type_extra_apply_enum env ed e = Inr e1"
    and r: "apply_extras_enum env e1 es = Inr ed'"
    by (auto split: sum.splits)
  from Cons.IH[OF r] type_extra_apply_enum_bits[OF s, of n] show ?case by auto
qed

lemma enum_fresh_bits:
  "bit (flags (enum_fresh env T scope_h name_s)) n \<longleftrightarrow> n \<in> {0, 1, 2, 9, 19, 23}"
  by (auto simp: enum_fresh_def bit_simps)

lemma enum_ctor_Inr:
  "enum_ctor env T scope_h name_s extras supp0 = Inr (d, supp) \<Longrightarrow>
     enum_static_asserts env T = None \<and>
     apply_extras_enum env (enum_fresh env T scope_h name_s) extras = Inr d \<and>
     supp = supp0\<lparr>supp_is_signed := is_signed d, supp_scope := scope d\<rparr>"
  by (auto simp: enum_ctor_def split: option.splits sum.splits)

text \<open>
  C5. For every enum type built through the enum builder, whatever traits it accepts, the
  descriptor handed to the type registry has: the supplement reserved, sized for the
  enum supplement record; the slot mechanism active with the slot-computing callback set
  to the enum machinery's preparation routine; the fixed slot table null by default,
  that is, null unless a fixed-slot-table trait (the one slot trait enums accept)
  supplies a table, and in any case either null or a supplied table; copy, move and
  destruct marked as capabilities with no hook flag set and no hook pointer assigned;
  and the final flag set. The supplement of the new type has its signedness flag equal
  to the signedness of the enum's underlying type and its scope equal to the enclosing
  registration scope; its entry table is left as the registry created it.
\<close>

theorem enum_descriptor_shape:
  assumes "enum_ctor env T scope_h name_s extras supp0 = Inr (d, supp)"
  shows "has_flag (flags d) has_supplement \<and>
         supplement d = Init (sizeof_enum_supplement env) \<and>
         has_flag (flags d) has_type_slots \<and>
         type_slots_callback d = Init (Some Nb_enum_prepare) \<and>
         ((\<forall>c. Type_slots c \<notin> set extras) \<longrightarrow> type_slots d = Init None) \<and>
         (\<exists>c. type_slots d = Init c \<and> (c = None \<or> Type_slots c \<in> set extras)) \<and>
         has_flag (flags d) is_copy_constructible \<and>
         has_flag (flags d) is_move_constructible \<and>
         has_flag (flags d) is_destructible \<and>
         \<not> has_flag (flags d) has_copy \<and> copy d = Indeterminate \<and>
         \<not> has_flag (flags d) has_move \<and> move d = Indeterminate \<and>
         \<not> has_flag (flags d) has_destruct \<and> destruct d = Indeterminate \<and>
         has_flag (flags d) is_final \<and>
         supp_is_signed supp = underlying_is_signed_v env T \<and>
         supp_scope supp = scope_h \<and>
         supp_entries supp = supp_entries supp0"
proof -
  let ?f = "enum_fresh env T scope_h name_s"
  from enum_ctor_Inr[OF assms]
  have r: "apply_extras_enum env ?f extras = Inr d"
    and sp: "supp = supp0\<lparr>supp_is_signed := is_signed d, supp_scope := scope d\<rparr>"
    by simp_all
  have f23: "bit (flags ?f) 23" by (simp add: enum_fresh_bits)
  note inv = apply_extras_enum_inv[OF r f23]
  have fields: "copy d = Indeterminate" "move d = Indeterminate" "destruct d = Indeterminate"
    "supplement d = Init (sizeof_enum_supplement env)"
    "type_slots_callback d = Init (Some Nb_enum_prepare)"
    "scope d = scope_h" "is_signed d = underlying_is_signed_v env T"
    using inv by (simp_all add: enum_fresh_def)
  have slots: "type_slots d = Init None \<or> (\<exists>c. Type_slots c \<in> set extras \<and> type_slots d = Init c)"
    using inv by (simp add: enum_fresh_def)
  have set_bits: "bit (flags d) 19" "bit (flags d) 23" "bit (flags d) 9"
    "bit (flags d) 0" "bit (flags d) 1" "bit (flags d) 2"
    using apply_extras_enum_bits[OF r] by (simp_all add: enum_fresh_bits)
  have clear_bits: "\<not> bit (flags d) 4" "\<not> bit (flags d) 5" "\<not> bit (flags d) 6"
    using apply_extras_enum_bits[OF r, of 4] apply_extras_enum_bits[OF r, of 5]
      apply_extras_enum_bits[OF r, of 6]
    by (simp_all add: enum_fresh_bits)
  have flags_ok: "has_flag (flags d) has_supplement" "has_flag (flags d) has_type_slots"
    "has_flag (flags d) is_copy_constructible" "has_flag (flags d) is_move_constructible"
    "has_flag (flags d) is_destructible" "has_flag (flags d) is_final"
    "\<not> has_flag (flags d) has_copy" "\<not> has_flag (flags d) has_move"
    "\<not> has_flag (flags d) has_destruct"
    using set_bits clear_bits by (simp_all add: has_flag_consts)
  from slots have s1: "(\<forall>c. Type_slots c \<notin> set extras) \<longrightarrow> type_slots d = Init None" by blast
  from slots have s2: "\<exists>c. type_slots d = Init c \<and> (c = None \<or> Type_slots c \<in> set extras)" by blast
  from flags_ok fields s1 s2 sp show ?thesis by simp
qed

text \<open>
  The enumeration \<open>Color\<close> (signed underlying type), registered in scope 7 with the
  arithmetic marker and a documentation string.
\<close>

theorem enum_descriptor_shape_witness:
  "\<exists>d supp. enum_ctor example_env ''Color'' (Some 7) ''Color'' [Is_arithmetic, Doc (Some ''colours'')]
        \<lparr>supp_is_signed = False, supp_entries = None, supp_scope = None\<rparr> = Inr (d, supp) \<and>
      has_flag (flags d) has_supplement \<and> supplement d = Init 24 \<and>
      type_slots_callback d = Init (Some Nb_enum_prepare) \<and> type_slots d = Init None \<and>
      has_flag (flags d) is_final \<and> \<not> has_flag (flags d) has_copy \<and>
      supp_is_signed supp \<and> supp_scope supp = Some 7"
proof -
  have a: "enum_static_asserts example_env ''Color'' = None"
    by (simp add: enum_static_asserts_def class_static_asserts_def Base_def Alias_def)
  obtain d supp where b: "enum_ctor example_env ''Color'' (Some 7) ''Color''
        [Is_arithmetic, Doc (Some ''colours'')]
        \<lparr>supp_is_signed = False, supp_entries = None, supp_scope = None\<rparr> = Inr (d, supp)"
    by (simp add: enum_ctor_def a)
  have n: "\<forall>c. Type_slots c \<notin> set [Is_arithmetic, Doc (Some ''colours'')]" by simp
  from enum_descriptor_shape [OF b] n
  have "has_flag (flags d) has_supplement \<and> supplement d = Init 24 \<and>
      type_slots_callback d = Init (Some Nb_enum_prepare) \<and> type_slots d = Init None \<and>
      has_flag (flags d) is_final \<and> \<not> has_flag (flags d) has_copy \<and>
      supp_is_signed supp \<and> supp_scope supp = Some 7"
    by simp
  with b show ?thesis by blast
qed


lemma apply_extras_enum_no_deleted:
  "apply_extras_enum env ed es = Inr ed' \<Longrightarrow> e \<in> set es \<Longrightarrow>
     type_extra_apply_enum env x e \<noteq> Inl Deleted_function"
proof (induction es arbitrary: ed)
  case Nil
  then show ?case by simp
next
  case (Cons a es)
  then obtain e1 where s: "type_extra_apply_enum env ed a = Inr e1"
    and r: "apply_extras_enum env e1 es = Inr ed'"
    by (auto split: sum.splits)
  show ?case
  proof (cases "e = a")
    case True
    with s show ?thesis by (cases a) auto
  next
    case False
    with Cons.prems(2) have "e \<in> set es" by simp
    with r show ?thesis by (rule Cons.IH)
  qed
qed

text \<open>
  C8. On an enum descriptor under construction, applying the base-handle trait, the
  intrusive-ownership marker, the weak-reference marker, a supplement reservation, the
  final marker or a slot-computing callback does not build: the call resolves to an
  overload declared deleted, so an enum registration with such a trait among its extras
  is rejected. Applying the arithmetic-operator-enable marker builds and sets the
  descriptor's arithmetic flag, changing nothing else.
\<close>

theorem enum_trait_overloads:
  "type_extra_apply_enum env ed (Handle h) = Inl Deleted_function \<and>
   type_extra_apply_enum env ed (Intrusive_ptr ip) = Inl Deleted_function \<and>
   type_extra_apply_enum env ed (Weak_py wp) = Inl Deleted_function \<and>
   type_extra_apply_enum env ed (Supplement S) = Inl Deleted_function \<and>
   type_extra_apply_enum env ed Is_final = Inl Deleted_function \<and>
   type_extra_apply_enum env ed (Type_slots_callback c) = Inl Deleted_function \<and>
   type_extra_apply_enum env ed Is_arithmetic = Inr (ed\<lparr>is_arithmetic := True\<rparr>) \<and>
   is_arithmetic (ed\<lparr>is_arithmetic := True\<rparr>) \<and>
   (e \<in> set extras \<and> type_extra_apply_enum env ed e = Inl Deleted_function \<longrightarrow>
      (\<exists>err. enum_ctor env T scope_h name_s extras supp0 = Inl err))"
proof -
  have "\<exists>err. enum_ctor env T scope_h name_s extras supp0 = Inl err"
    if m: "e \<in> set extras" and del: "type_extra_apply_enum env ed e = Inl Deleted_function"
  proof (cases "enum_ctor env T scope_h name_s extras supp0")
    case (Inl err)
    then show ?thesis by blast
  next
    case (Inr res)
    obtain d supp where "res = (d, supp)" by (cases res)
    with Inr have "apply_extras_enum env (enum_fresh env T scope_h name_s) extras = Inr d"
      by (simp add: enum_ctor_Inr)
    from apply_extras_enum_no_deleted[OF this m, of ed] del show ?thesis by simp
  qed
  then show ?thesis by (simp add: type_extra_apply_is_arithmetic_def)
qed

text \<open>
  For the enumeration \<open>Color\<close>: the final marker is rejected, alone and among other
  traits; the arithmetic marker sets the flag.
\<close>

theorem enum_trait_overloads_witness:
  "type_extra_apply_enum example_env (enum_fresh example_env ''Color'' (Some 7) ''Color'') Is_final
     = Inl Deleted_function \<and>
   (\<exists>err. enum_ctor example_env ''Color'' (Some 7) ''Color'' [Doc (Some ''colours''), Is_final]
       \<lparr>supp_is_signed = False, supp_entries = None, supp_scope = None\<rparr> = Inl err) \<and>
   is_arithmetic (enum_fresh example_env ''Color'' (Some 7) ''Color''\<lparr>is_arithmetic := True\<rparr>)"
proof -
  have m: "Is_final \<in> set [Doc (Some ''colours''), Is_final]" by simp
  from enum_trait_overloads [of example_env "enum_fresh example_env ''Color'' (Some 7) ''Color''"
      _ _ _ _ _ Is_final "[Doc (Some ''colours''), Is_final]" "''Color''" "Some 7" "''Color''"
      "\<lparr>supp_is_signed = False, supp_entries = None, supp_scope = None\<rparr>"] m
  show ?thesis by simp
qed

section \<open>Build-time checks of the class builder\<close>







section \<open>Constructors and data members\<close>

lemma init_lambda_check_None:
  "init_lambda_check env Type Alias_t Args = None \<longleftrightarrow>
     braced_init_ok env Alias_t Args \<and>
     (Type \<noteq> Alias_t \<and> is_constructible_v env Type Args \<longrightarrow> braced_init_ok env Type Args)"
  by (auto simp: init_lambda_check_def)

lemma init_execute_Inr:
  "init_execute env cl Args extras = Inr cl' \<longleftrightarrow>
     init_lambda_check env (cl_Type cl) (cl_Alias cl) Args = None \<and>
     cl' = class_def cl ''__init__'' (Init_lambda Args) extras"
  by (auto simp: init_execute_def split: option.splits)

text \<open>
  C2. For every constructor registered via \<^verbatim>\<open>init<Args...>\<close> (the registration builds, so
  the alias type can be initialised from the arguments), the initializer installed under
  \<open>__init__\<close>, given the payload address and the handle of a freshly allocated instance,
  constructs \<open>T\<close> in place when the instance is not a host-language-extended derivative,
  \<open>T\<close> is constructible from the arguments and \<open>T\<close> differs from the alias type; in every
  other case it constructs the alias type in place, at the same address and from the
  same arguments. When \<open>T\<close> differs from the alias type, it constructs \<open>T\<close> exactly when
  the first two conditions hold. Where the alias type cannot be initialised from the
  arguments, nothing is registered: the registration does not build.
\<close>

theorem init_constructs_type_or_alias:
  "(init_execute env cl Args extras = Inr cl' \<longrightarrow>
      cl_Type cl' = cl_Type cl \<and> cl_Alias cl' = cl_Alias cl \<and>
      cl_defs cl' =
        cl_defs cl @ [(Init_lambda Args, [Scope_attr, Name_attr ''__init__'', Is_method] @ extras)] \<and>
      braced_init_ok env (cl_Alias cl) Args \<and>
      call_init env cl' (fst (last (cl_defs cl'))) derived p h args =
        Some (if \<not> derived h \<and> is_constructible_v env (cl_Type cl) Args \<and> cl_Type cl \<noteq> cl_Alias cl
              then Placement_new (cl_Type cl) p args else Placement_new (cl_Alias cl) p args) \<and>
      (cl_Type cl \<noteq> cl_Alias cl \<longrightarrow>
         (call_init env cl' (fst (last (cl_defs cl'))) derived p h args =
            Some (Placement_new (cl_Type cl) p args) \<longleftrightarrow>
          \<not> derived h \<and> is_constructible_v env (cl_Type cl) Args))) \<and>
   (\<not> braced_init_ok env (cl_Alias cl) Args \<longrightarrow>
      (\<exists>err. init_execute env cl Args extras = Inl err) \<and>
      call_init env cl (Init_lambda Args) derived p h args = None)"
proof (intro conjI impI)
  assume b: "init_execute env cl Args extras = Inr cl'"
  then have chk: "init_lambda_check env (cl_Type cl) (cl_Alias cl) Args = None"
    and cl': "cl' = class_def cl ''__init__'' (Init_lambda Args) extras"
    by (simp_all add: init_execute_Inr)
  from cl' show t: "cl_Type cl' = cl_Type cl" and a: "cl_Alias cl' = cl_Alias cl"
    and defs: "cl_defs cl' =
        cl_defs cl @ [(Init_lambda Args, [Scope_attr, Name_attr ''__init__'', Is_method] @ extras)]"
    by (simp_all add: class_def_def)
  from chk show "braced_init_ok env (cl_Alias cl) Args" by (simp add: init_lambda_check_None)
  from defs have f: "fst (last (cl_defs cl')) = Init_lambda Args" by simp
  show call: "call_init env cl' (fst (last (cl_defs cl'))) derived p h args =
        Some (if \<not> derived h \<and> is_constructible_v env (cl_Type cl) Args \<and> cl_Type cl \<noteq> cl_Alias cl
              then Placement_new (cl_Type cl) p args else Placement_new (cl_Alias cl) p args)"
    by (simp add: f t a chk init_lambda_def)
  assume "cl_Type cl \<noteq> cl_Alias cl"
  then show "call_init env cl' (fst (last (cl_defs cl'))) derived p h args =
            Some (Placement_new (cl_Type cl) p args) \<longleftrightarrow>
          \<not> derived h \<and> is_constructible_v env (cl_Type cl) Args"
    by (simp add: call)
next
  assume n: "\<not> braced_init_ok env (cl_Alias cl) Args"
  then have "init_lambda_check env (cl_Type cl) (cl_Alias cl) Args \<noteq> None"
    by (simp add: init_lambda_check_None)
  then obtain err where e: "init_lambda_check env (cl_Type cl) (cl_Alias cl) Args = Some err"
    by blast
  then show "\<exists>err. init_execute env cl Args extras = Inl err" by (simp add: init_execute_def)
  from e show "call_init env cl (Init_lambda Args) derived p h args = None"
    by (simp add: init_lambda_def)
qed

lemma widget_cl_simps [simp]:
  "cl_Type widget_cl = ''Widget''" "cl_Alias widget_cl = ''PyWidget''"
  "cl_defs widget_cl = []" "cl_props widget_cl = []"
  by (simp_all add: widget_cl_def)

lemma shape_cl_simps [simp]:
  "cl_Type shape_cl = ''Shape''" "cl_Alias shape_cl = ''PyShape''"
  "cl_defs shape_cl = []" "cl_props shape_cl = []"
  by (simp_all add: shape_cl_def)

text \<open>
  With object 2 a host-language subclass instance and object 1 not: on
  \<^verbatim>\<open>class_<Widget, PyWidget>\<close>, \<^verbatim>\<open>init<int>\<close> constructs \<open>Widget\<close> for object 1 and \<open>PyWidget\<close>
  for object 2, and \<^verbatim>\<open>init<>\<close> does not build, as \<open>PyWidget\<close> has no default constructor;
  on \<^verbatim>\<open>class_<Shape, PyShape>\<close>, \<^verbatim>\<open>init<>\<close> constructs \<open>PyShape\<close> for object 1, as the abstract
  \<open>Shape\<close> is not constructible.
\<close>

theorem init_constructs_type_or_alias_witness:
  "(\<exists>cl'. init_execute example_env widget_cl [''int''] [] = Inr cl' \<and>
      call_init example_env cl' (fst (last (cl_defs cl'))) (\<lambda>h. h = 2) 100 1 [5::int] =
        Some (Placement_new ''Widget'' 100 [5]) \<and>
      call_init example_env cl' (fst (last (cl_defs cl'))) (\<lambda>h. h = 2) 100 2 [5::int] =
        Some (Placement_new ''PyWidget'' 100 [5])) \<and>
   (\<exists>err. init_execute example_env widget_cl [] [] = Inl err) \<and>
   (\<exists>cl'. init_execute example_env shape_cl [] [] = Inr cl' \<and>
      call_init example_env cl' (fst (last (cl_defs cl'))) (\<lambda>h. h = 2) 100 1 ([]::int list) =
        Some (Placement_new ''PyShape'' 100 []))"
proof -
  obtain w where w: "init_execute example_env widget_cl [''int''] [] = Inr w"
    by (simp add: init_execute_def init_lambda_check_def)
  obtain s where s: "init_execute example_env shape_cl [] [] = Inr s"
    by (simp add: init_execute_def init_lambda_check_def)
  from init_constructs_type_or_alias
    [of example_env widget_cl "[''int'']" "[]" w "\<lambda>h. h = 2" 100 1 "[5::int]", THEN conjunct1] w
  have p1: "call_init example_env w (fst (last (cl_defs w))) (\<lambda>h. h = 2) 100 1 [5::int] =
        Some (Placement_new ''Widget'' 100 [5])"
    by (auto simp del: call_init.simps)
  from init_constructs_type_or_alias
    [of example_env widget_cl "[''int'']" "[]" w "\<lambda>h. h = 2" 100 2 "[5::int]", THEN conjunct1] w
  have p2: "call_init example_env w (fst (last (cl_defs w))) (\<lambda>h. h = 2) 100 2 [5::int] =
        Some (Placement_new ''PyWidget'' 100 [5])"
    by (auto simp del: call_init.simps)
  have nb: "\<not> braced_init_ok example_env (cl_Alias widget_cl) []" by simp
  from init_constructs_type_or_alias
    [of example_env widget_cl "[]" "[]" _ "\<lambda>h. h = 2" 100 1 "[]::int list", THEN conjunct2] nb
  have p3: "\<exists>err. init_execute example_env widget_cl [] [] = Inl err"
    by blast
  from init_constructs_type_or_alias
    [of example_env shape_cl "[]" "[]" s "\<lambda>h. h = 2" 100 1 "[]::int list", THEN conjunct1] s
  have p4: "call_init example_env s (fst (last (cl_defs s))) (\<lambda>h. h = 2) 100 1 ([]::int list) =
        Some (Placement_new ''PyShape'' 100 [])"
    by (auto simp del: call_init.simps)
  from w s p1 p2 p3 p4 show ?thesis by blast
qed

text \<open>
  C6, as amended. \<^verbatim>\<open>def_rw\<close> does not build unless the member's class is \<open>T\<close> or one of
  its bases. When it builds, it installs a property whose getter returns a read-only
  (const) reference to the member, and whose setter takes its value as \<^verbatim>\<open>D &&\<close> and
  move-assigns it into the member when the value's type is claimed by the competing
  type-caster mechanism, and takes it as \<^verbatim>\<open>const D &\<close> and copy-assigns it, leaving the
  source as it was, when the value's type is not claimed by a type caster (it is bound,
  and its base caster hands out a reference to the bound instance).
\<close>

theorem def_rw_accessors:
  "(\<not> is_base_of_v env C (cl_Type cl) \<longrightarrow>
      def_rw env cl name_s C D p extras =
        Inl (Static_assert ''def_rw() requires a (base) class member!'')) \<and>
   (is_base_of_v env C (cl_Type cl) \<longrightarrow>
      def_rw env cl name_s C D p extras =
        Inr (cl\<lparr>cl_props := cl_props cl @
               [\<lparr>prop_name = name_s,
                 prop_get = Some (Getter_lambda p,
                   [Scope_attr, Is_method, Is_getter, Rv_policy_reference_internal] @ extras),
                 prop_set = Some (Setter_lambda p (def_rw_Q env D),
                   [Scope_attr, Is_method] @ extras)\<rparr>]\<rparr>)) \<and>
   call_getter (Getter_lambda p) c = Some (Const_lvalue_ref, p, c p) \<and>
   def_rw_Q env D = (if intercepted_by_type_caster env D then Rvalue_ref else Const_lvalue_ref) \<and>
   call_setter ops (Setter_lambda p (def_rw_Q env D)) c v =
     Some (if intercepted_by_type_caster env D
           then (case move_assign ops (c p) v of (d', v') \<Rightarrow> (c(p := d'), v'))
           else (c(p := copy_assign ops (c p) v), v))"
  by (simp add: def_rw_def def_prop_rw_def def_rw_Q_def intercepted_by_type_caster_def
      getter_lambda_def setter_lambda_def)

lemma example_object_apply [simp]: "example_object m = [1]"
  by (simp add: example_object_def)

lemma vec_ops_simps [simp]:
  "copy_assign vec_ops dst src = src" "move_assign vec_ops dst src = (src, [])"
  by (simp_all add: vec_ops_def)

text \<open>
  C6 as stated fails: \<open>IntVec\<close> is claimed by the competing type-caster mechanism, and
  the setter \<^verbatim>\<open>def_rw\<close> synthesises for a member of that type takes \<^verbatim>\<open>D &&\<close> and moves
  (the source vector is left empty); it does not force a copy.
\<close>

theorem def_rw_setter_counterexample:
  "intercepted_by_type_caster example_env ''IntVec'' \<and>
   def_rw example_env widget_cl ''data'' ''Widget'' ''IntVec'' 0 [] =
     Inr (widget_cl\<lparr>cl_props :=
       [\<lparr>prop_name = ''data'',
         prop_get = Some (Getter_lambda 0, [Scope_attr, Is_method, Is_getter, Rv_policy_reference_internal]),
         prop_set = Some (Setter_lambda 0 Rvalue_ref, [Scope_attr, Is_method])\<rparr>]\<rparr>) \<and>
   call_setter vec_ops (Setter_lambda 0 Rvalue_ref) example_object [2, 3] =
     Some (example_object(0 := [2, 3]), []) \<and>
   call_setter vec_ops (Setter_lambda 0 Rvalue_ref) example_object [2, 3] \<noteq>
     Some (example_object(0 := [2, 3]), [2, 3])"
  by (simp add: intercepted_by_type_caster_def def_rw_def def_prop_rw_def def_rw_Q_def
      setter_lambda_def)

text \<open>
  On \<^verbatim>\<open>class_<Widget, PyWidget>\<close>, with member values shown as lists whose move
  assignment empties the source: a member of the caster-converted type \<open>IntVec\<close> is moved
  into, a member of the bound type \<open>Point\<close> is copied into, and a member of the unrelated
  class \<open>Circle\<close> is refused.
\<close>

theorem def_rw_accessors_witness:
  "def_rw example_env widget_cl ''data'' ''Widget'' ''IntVec'' 0 [] =
     Inr (widget_cl\<lparr>cl_props :=
       [\<lparr>prop_name = ''data'',
         prop_get = Some (Getter_lambda 0, [Scope_attr, Is_method, Is_getter, Rv_policy_reference_internal]),
         prop_set = Some (Setter_lambda 0 Rvalue_ref, [Scope_attr, Is_method])\<rparr>]\<rparr>) \<and>
   call_getter (Getter_lambda 0) example_object = Some (Const_lvalue_ref, 0, [1]) \<and>
   call_setter vec_ops (Setter_lambda 0 (def_rw_Q example_env ''IntVec'')) example_object [2, 3] =
     Some (example_object(0 := [2, 3]), []) \<and>
   call_setter vec_ops (Setter_lambda 1 (def_rw_Q example_env ''Point'')) example_object [2, 3] =
     Some (example_object(1 := [2, 3]), [2, 3]) \<and>
   def_rw example_env widget_cl ''radius'' ''Circle'' ''int'' 0 [] =
     Inl (Static_assert ''def_rw() requires a (base) class member!'')"
proof -
  have b: "is_base_of_v example_env ''Widget'' (cl_Type widget_cl)" by simp
  have nb: "\<not> is_base_of_v example_env ''Circle'' (cl_Type widget_cl)" by simp
  have i1: "intercepted_by_type_caster example_env ''IntVec''"
    and i2: "\<not> intercepted_by_type_caster example_env ''Point''"
    by (simp_all add: intercepted_by_type_caster_def)
  from def_rw_accessors [of example_env "''Widget''" widget_cl "''data''" "''IntVec''" 0 "[]"
      example_object vec_ops "[2, 3]"] b i1
  have p1: "def_rw example_env widget_cl ''data'' ''Widget'' ''IntVec'' 0 [] =
     Inr (widget_cl\<lparr>cl_props :=
       [\<lparr>prop_name = ''data'',
         prop_get = Some (Getter_lambda 0, [Scope_attr, Is_method, Is_getter, Rv_policy_reference_internal]),
         prop_set = Some (Setter_lambda 0 Rvalue_ref, [Scope_attr, Is_method])\<rparr>]\<rparr>) \<and>
   call_getter (Getter_lambda 0) example_object = Some (Const_lvalue_ref, 0, [1]) \<and>
   call_setter vec_ops (Setter_lambda 0 (def_rw_Q example_env ''IntVec'')) example_object [2, 3] =
     Some (example_object(0 := [2, 3]), [])"
    by auto
  from def_rw_accessors [of example_env "''Widget''" widget_cl "''origin''" "''Point''" 1 "[]"
      example_object vec_ops "[2, 3]"] i2
  have p2: "call_setter vec_ops (Setter_lambda 1 (def_rw_Q example_env ''Point'')) example_object [2, 3] =
     Some (example_object(1 := [2, 3]), [2, 3])"
    by auto
  from def_rw_accessors [of example_env "''Circle''" widget_cl "''radius''" "''int''" 0 "[]",
      THEN conjunct1] nb
  have p3: "def_rw example_env widget_cl ''radius'' ''Circle'' ''int'' 0 [] =
     Inl (Static_assert ''def_rw() requires a (base) class member!'')"
    by blast
  from p1 p2 p3 show ?thesis by blast
qed



lemma example_casters_simps [simp]:
  "accepts (example_casters T) src fl \<longleftrightarrow> T = ''int'' \<and> (src = 5 \<or> src = 6)"
  "registers (example_casters T) src = []"
  by (simp_all add: example_casters_def)



end
